theory Spec2Isabelle
  imports Main
begin

section \<open>JavaScript values and strings\<close>

text \<open>
  A string is a list of characters, and a character is the UTF-16 code unit of its
  number: the characters of a \<open>string\<close> are the code units below 256 (ASCII and the
  Latin-1 supplement). On that range, \<open>trim\<close> strips tab, line feed, vertical tab,
  form feed, carriage return, space and the no-break space U+00A0, the white space and
  line terminators of the language; \<open>toLowerCase\<close> maps A to Z, U+00C0 to U+00D6 and
  U+00D8 to U+00DE to the letter 32 places on.
\<close>

definition is_space :: "char \<Rightarrow> bool" where
  "is_space c =
     (c \<in> set [CHR 0x09, CHR 0x0A, CHR 0x0B, CHR 0x0C, CHR 0x0D, CHR '' '', CHR 0xA0])"

definition trim :: "string \<Rightarrow> string" where
  "trim s = rev (dropWhile is_space (rev (dropWhile is_space s)))"

definition upper_letters :: "char list" where
  "upper_letters =
     ''ABCDEFGHIJKLMNOPQRSTUVWXYZ'' @
     [CHR 0xC0, CHR 0xC1, CHR 0xC2, CHR 0xC3, CHR 0xC4, CHR 0xC5, CHR 0xC6, CHR 0xC7,
      CHR 0xC8, CHR 0xC9, CHR 0xCA, CHR 0xCB, CHR 0xCC, CHR 0xCD, CHR 0xCE, CHR 0xCF,
      CHR 0xD0, CHR 0xD1, CHR 0xD2, CHR 0xD3, CHR 0xD4, CHR 0xD5, CHR 0xD6, CHR 0xD8,
      CHR 0xD9, CHR 0xDA, CHR 0xDB, CHR 0xDC, CHR 0xDD, CHR 0xDE]"

definition lower_letters :: "char list" where
  "lower_letters =
     ''abcdefghijklmnopqrstuvwxyz'' @
     [CHR 0xE0, CHR 0xE1, CHR 0xE2, CHR 0xE3, CHR 0xE4, CHR 0xE5, CHR 0xE6, CHR 0xE7,
      CHR 0xE8, CHR 0xE9, CHR 0xEA, CHR 0xEB, CHR 0xEC, CHR 0xED, CHR 0xEE, CHR 0xEF,
      CHR 0xF0, CHR 0xF1, CHR 0xF2, CHR 0xF3, CHR 0xF4, CHR 0xF5, CHR 0xF6, CHR 0xF8,
      CHR 0xF9, CHR 0xFA, CHR 0xFB, CHR 0xFC, CHR 0xFD, CHR 0xFE]"

definition lower_char :: "char \<Rightarrow> char" where
  "lower_char c =
     (case map_of (zip upper_letters lower_letters) c of
        Some d \<Rightarrow> d
      | None \<Rightarrow> c)"

text \<open>
  \<open>toUpperCase\<close> maps a to z, U+00E0 to U+00F6 and U+00F8 to U+00FE to the letter 32
  places back, and the sharp s U+00DF to \<open>SS\<close>. The upper case of U+00B5 and of
  U+00FF is a code unit above 255, which a \<open>string\<close> cannot hold; \<open>upper_char\<close>
  leaves these two as they are.
\<close>

definition upper_char :: "char \<Rightarrow> char" where
  "upper_char c =
     (case map_of (zip lower_letters upper_letters) c of
        Some d \<Rightarrow> d
      | None \<Rightarrow> c)"

definition toLowerCase :: "string \<Rightarrow> string" where
  "toLowerCase s = map lower_char s"

definition toUpperCase :: "string \<Rightarrow> string" where
  "toUpperCase s = concat (map (\<lambda>c. if c = CHR 0xDF then ''SS'' else [upper_char c]) s)"

text \<open>\<open>s.startsWith(p)\<close>.\<close>

definition startsWith :: "string \<Rightarrow> string \<Rightarrow> bool" where
  "startsWith s p = (take (length p) s = p)"

text \<open>\<open>s.split(c)\<close> for a one-character separator: never an empty array.\<close>

fun split :: "char \<Rightarrow> string \<Rightarrow> string list" where
  "split c [] = [[]]"
| "split c (x # xs) =
     (if x = c then [] # split c xs
      else (case split c xs of
              [] \<Rightarrow> [[x]]
            | y # ys \<Rightarrow> (x # y) # ys))"

text \<open>\<open>xs[i]\<close>: \<open>undefined\<close> (here \<open>None\<close>) out of range.\<close>

definition index :: "'a list \<Rightarrow> nat \<Rightarrow> 'a option" where
  "index xs i = (if i < length xs then Some (xs ! i) else None)"

text \<open>
  The numbers of the model are the safe integers, of magnitude at most \<open>2^53 - 1\<close>:
  the integers that JSON parsing reads exactly and that \<open>String\<close> writes as their
  decimal digits.
\<close>

typedef safe_int = "{n :: int. - 9007199254740991 \<le> n \<and> n \<le> 9007199254740991}"
  by (rule exI [of _ 0]) simp

text \<open>
  A field of the parsed JSON body, as far as the handlers read it: absent
  (\<open>undefined\<close>), \<open>null\<close>, a boolean, a number or a string. Other numbers, arrays
  and nested objects in the fields the handlers read are outside the model.
\<close>

datatype jsval = JUndefined | JNull | JBool bool | JNum safe_int | JStr string

text \<open>The number \<open>i\<close> as a value, for a safe integer \<open>i\<close>.\<close>

definition num :: "int \<Rightarrow> jsval" where
  "num i = JNum (Abs_safe_int i)"

text \<open>Any JSON value, for the body fields the handlers never read.\<close>

datatype json = Prim jsval | Arr "json list" | Obj "(string \<times> json) list"

text \<open>Truthiness: \<open>!v\<close> is \<open>\<not> truthy v\<close>.\<close>

fun truthy :: "jsval \<Rightarrow> bool" where
  "truthy JUndefined = False"
| "truthy JNull = False"
| "truthy (JBool b) = b"
| "truthy (JNum n) = (Rep_safe_int n \<noteq> 0)"
| "truthy (JStr s) = (s \<noteq> [])"

text \<open>What the handlers and the libraries they call can throw.\<close>

datatype vkind = Required | Enum | Min | Max | Cast

datatype exn =
    TypeError
  | IllegalArguments
  | ValidationError "(string \<times> vkind) list"
  | MongoServerError nat
  | DocumentNotFoundError
  | JsonWebTokenError
  | TokenExpiredError

text \<open>
  A string method called on a value: a string has it; on any other truthy primitive the
  property is \<open>undefined\<close> and the call throws a TypeError, as reading a property of
  \<open>undefined\<close> or \<open>null\<close> does.
\<close>

fun call_str :: "(string \<Rightarrow> string) \<Rightarrow> jsval \<Rightarrow> exn + string" where
  "call_str f (JStr s) = Inr (f s)"
| "call_str f v = Inl TypeError"

text \<open>Decimal digits of a natural number, and \<open>String(n)\<close> for a safe integer.\<close>

definition digit_char :: "nat \<Rightarrow> char" where
  "digit_char d = ''0123456789'' ! d"

fun digits :: "nat \<Rightarrow> string" where
  "digits n =
     (if n < 10 then [digit_char n]
      else digits (n div 10) @ [digit_char (n mod 10)])"

definition show_int :: "int \<Rightarrow> string" where
  "show_int i = (if i < 0 then CHR ''-'' # digits (nat (- i)) else digits (nat i))"

text \<open>
  \<open>parseInt(v)\<close> with no radix: the argument is converted to a string, leading white
  space is skipped, a sign is read, a \<open>0x\<close> or \<open>0X\<close> prefix selects radix 16,
  and the longest prefix of digits is the value; with no digit the result is NaN. The
  result is a number: NaN or an integer.
\<close>

definition digit_val :: "char \<Rightarrow> nat option" where
  "digit_val c =
     map_of
       [(CHR ''0'', 0), (CHR ''1'', 1), (CHR ''2'', 2), (CHR ''3'', 3), (CHR ''4'', 4),
        (CHR ''5'', 5), (CHR ''6'', 6), (CHR ''7'', 7), (CHR ''8'', 8), (CHR ''9'', 9),
        (CHR ''a'', 10), (CHR ''b'', 11), (CHR ''c'', 12), (CHR ''d'', 13), (CHR ''e'', 14),
        (CHR ''f'', 15), (CHR ''A'', 10), (CHR ''B'', 11), (CHR ''C'', 12), (CHR ''D'', 13),
        (CHR ''E'', 14), (CHR ''F'', 15)] c"

definition is_digit :: "nat \<Rightarrow> char \<Rightarrow> bool" where
  "is_digit radix c = (case digit_val c of Some d \<Rightarrow> d < radix | None \<Rightarrow> False)"

definition digits_val :: "nat \<Rightarrow> string \<Rightarrow> nat" where
  "digits_val radix s = foldl (\<lambda>acc c. acc * radix + (case digit_val c of Some d \<Rightarrow> d | None \<Rightarrow> 0)) 0 s"

definition parse_digits :: "nat \<Rightarrow> string \<Rightarrow> nat option" where
  "parse_digits radix s =
     (let ds = takeWhile (is_digit radix) s in
      if ds = [] then None else Some (digits_val radix ds))"

definition parse_unsigned :: "string \<Rightarrow> nat option" where
  "parse_unsigned s =
     (if startsWith s ''0x'' \<or> startsWith s ''0X'' then parse_digits 16 (drop 2 s)
      else parse_digits 10 s)"

datatype number = NaN | Number int

definition parseInt_str :: "string \<Rightarrow> number" where
  "parseInt_str s =
     (let t = dropWhile is_space s in
      case t of
        [] \<Rightarrow> NaN
      | c # r \<Rightarrow>
          if c = CHR ''-'' then
            (case parse_unsigned r of None \<Rightarrow> NaN | Some n \<Rightarrow> Number (- int n))
          else if c = CHR ''+'' then
            (case parse_unsigned r of None \<Rightarrow> NaN | Some n \<Rightarrow> Number (int n))
          else
            (case parse_unsigned t of None \<Rightarrow> NaN | Some n \<Rightarrow> Number (int n)))"

text \<open>\<open>String(v)\<close>, which is also \<open>v.toString()\<close> where \<open>v\<close> has the method.\<close>

fun toString :: "jsval \<Rightarrow> string" where
  "toString JUndefined = ''undefined''"
| "toString JNull = ''null''"
| "toString (JBool b) = (if b then ''true'' else ''false'')"
| "toString (JNum n) = show_int (Rep_safe_int n)"
| "toString (JStr s) = s"

definition parseInt :: "jsval \<Rightarrow> number" where
  "parseInt v = parseInt_str (toString v)"

section \<open>The Credential Record (models/User.js)\<close>

record permissions =
  manageCalendar :: bool
  manageUsers :: bool
  viewAnalytics :: bool
  manageProctors :: bool
  manageAdmins :: bool
  exportReports :: bool

text \<open>
  A document of the \<open>User\<close> model, with the schema's types. The four required strings
  hold \<open>[]\<close> when the path is missing, which the \<open>required\<close> validator rejects
  exactly as it rejects the empty string. Paths with a default (\<open>adminLevel\<close>,
  \<open>permissions\<close>, \<open>createdAt\<close>, \<open>isActive\<close>, the array \<open>assignedStudents\<close>)
  always hold a value. Dates are milliseconds since the epoch; \<open>user_id\<close> is \<open>_id\<close>.
\<close>

record user =
  user_id :: string
  name :: string
  email :: string
  password :: string
  role :: string
  rollNumber :: "string option"
  department :: "string option"
  semester :: "int option"
  batch :: "string option"
  proctorId :: "string option"
  assignedStudents :: "string list"
  adminLevel :: string
  permissions :: permissions
  createdAt :: nat
  lastLogin :: "nat option"
  isActive :: bool
  profilePicture :: "string option"
  phone :: "string option"

text \<open>The schema's defaults for \<open>permissions\<close>: every capability false.\<close>

definition default_permissions :: permissions where
  "default_permissions =
     \<lparr>manageCalendar = False, manageUsers = False, viewAnalytics = False,
      manageProctors = False, manageAdmins = False, exportReports = False\<rparr>"

text \<open>The \<open>switch (this.adminLevel)\<close> of the second half of the pre-save hook.\<close>

definition level_permissions :: "string \<Rightarrow> permissions" where
  "level_permissions lvl =
     (if lvl = ''super'' then
        \<lparr>manageCalendar = True, manageUsers = True, viewAnalytics = True,
         manageProctors = True, manageAdmins = True, exportReports = True\<rparr>
      else if lvl = ''department'' then
        \<lparr>manageCalendar = True, manageUsers = True, viewAnalytics = True,
         manageProctors = True, manageAdmins = False, exportReports = True\<rparr>
      else
        \<lparr>manageCalendar = True, manageUsers = False, viewAnalytics = True,
         manageProctors = False, manageAdmins = False, exportReports = False\<rparr>)"

text \<open>
  The two library calls of the hook are parameters: \<open>bcrypt.hash(password, salt)\<close>
  and \<open>bcrypt.compare(candidate, digest)\<close>. The salt of \<open>bcrypt.genSalt(10)\<close> is
  random, so it is an input of every save.
\<close>

record bcrypt =
  bcrypt_hash :: "string \<Rightarrow> string \<Rightarrow> string"
  bcrypt_compare :: "string \<Rightarrow> string \<Rightarrow> bool"

text \<open>
  \<open>userSchema.pre('save')\<close>. \<open>modified\<close> lists the paths for which
  \<open>this.isModified\<close> is true; the result also lists them, with the paths the hook
  itself assigns.
\<close>

definition pre_save :: "bcrypt \<Rightarrow> string \<Rightarrow> string list \<Rightarrow> user \<Rightarrow> user \<times> string list" where
  "pre_save lib salt modified u =
     (let (u1, m1) =
            (if ''password'' \<in> set modified
             then (u\<lparr>password := bcrypt_hash lib (password u) salt\<rparr>, modified)
             else (u, modified));
          (u2, m2) =
            (if role u1 = ''admin'' \<and> ''adminLevel'' \<in> set m1
             then (u1\<lparr>permissions := level_permissions (adminLevel u1)\<rparr>,
                   m1 @ [''permissions''])
             else (u1, m1))
      in (u2, m2))"

text \<open>\<open>this.permissions[permission]\<close>: \<open>None\<close> for a name that is no capability.\<close>

definition get_permission :: "permissions \<Rightarrow> string \<Rightarrow> bool option" where
  "get_permission p k =
     (if k = ''manageCalendar'' then Some (manageCalendar p)
      else if k = ''manageUsers'' then Some (manageUsers p)
      else if k = ''viewAnalytics'' then Some (viewAnalytics p)
      else if k = ''manageProctors'' then Some (manageProctors p)
      else if k = ''manageAdmins'' then Some (manageAdmins p)
      else if k = ''exportReports'' then Some (exportReports p)
      else None)"

definition hasPermission :: "user \<Rightarrow> string \<Rightarrow> bool" where
  "hasPermission u permission =
     (if role u \<noteq> ''admin'' then False
      else get_permission (permissions u) permission = Some True)"

text \<open>\<open>comparePassword\<close>.\<close>

definition comparePassword :: "bcrypt \<Rightarrow> user \<Rightarrow> string \<Rightarrow> bool" where
  "comparePassword lib u candidatePassword = bcrypt_compare lib candidatePassword (password u)"

section \<open>Construction, validation and the store\<close>

text \<open>
  The schema of \<open>models/User.js\<close> is data for the Mongoose library, and the handlers
  reach the store through \<open>new User\<close>, \<open>save\<close> and \<open>findOne\<close>. This section
  writes out what the library does with this schema: it casts every value set on a path
  to the type of the path, applies the declared defaults and setters, tracks the modified
  paths, and on \<open>save\<close> runs the declared validators, then the pre-save hook, then the
  write, which the unique index on \<open>email\<close> can refuse.
\<close>

text \<open>
  The object \<open>userData\<close> that the registration handler builds. A key the handler does
  not set is \<open>None\<close> (\<open>JUndefined\<close> for \<open>department\<close>); \<open>name\<close>,
  \<open>email\<close>, \<open>password\<close> and \<open>role\<close> are always set.
\<close>

record userData =
  ud_name :: string
  ud_email :: string
  ud_password :: jsval
  ud_role :: jsval
  ud_rollNumber :: "string option"
  ud_department :: jsval
  ud_semester :: "number option"
  ud_batch :: "string option"
  ud_proctorId :: "string option"
  ud_adminLevel :: "jsval option"

text \<open>
  Casting to the schema type \<open>String\<close>: \<open>null\<close> and \<open>undefined\<close> stay absent,
  every other primitive becomes its \<open>toString()\<close>. Casting to \<open>Number\<close>: NaN is
  a cast error, reported when the document is validated.
\<close>

fun cast_string :: "jsval \<Rightarrow> string option" where
  "cast_string JUndefined = None"
| "cast_string JNull = None"
| "cast_string v = Some (toString v)"

definition or_empty :: "string option \<Rightarrow> string" where
  "or_empty v = (case v of None \<Rightarrow> [] | Some s \<Rightarrow> s)"

text \<open>
  \<open>new User(userData)\<close>: every key is cast and set, which marks it modified; the other
  paths take their defaults. \<open>email\<close> has the setter \<open>lowercase: true\<close>. The result
  is the document, its modified paths and the cast errors. The fresh \<open>_id\<close> and the
  clock read by the default of \<open>createdAt\<close> are inputs.
\<close>

definition new_User :: "string \<Rightarrow> nat \<Rightarrow> userData \<Rightarrow> user \<times> string list \<times> (string \<times> vkind) list" where
  "new_User oid now ud =
     (\<lparr>user_id = oid,
       name = ud_name ud,
       email = toLowerCase (ud_email ud),
       password = or_empty (cast_string (ud_password ud)),
       role = or_empty (cast_string (ud_role ud)),
       rollNumber = ud_rollNumber ud,
       department = cast_string (ud_department ud),
       semester = (case ud_semester ud of Some (Number n) \<Rightarrow> Some n | _ \<Rightarrow> None),
       batch = ud_batch ud,
       proctorId = ud_proctorId ud,
       assignedStudents = [],
       adminLevel = (case ud_adminLevel ud of
                       None \<Rightarrow> ''limited''
                     | Some v \<Rightarrow> (case cast_string v of None \<Rightarrow> ''limited'' | Some l \<Rightarrow> l)),
       permissions = default_permissions,
       createdAt = now,
       lastLogin = None,
       isActive = True,
       profilePicture = None,
       phone = None\<rparr>,
      [''name'', ''email'', ''password'', ''role'']
        @ (if ud_rollNumber ud = None then [] else [''rollNumber''])
        @ (if ud_department ud = JUndefined then [] else [''department''])
        @ (if ud_semester ud = None then [] else [''semester''])
        @ (if ud_batch ud = None then [] else [''batch''])
        @ (if ud_proctorId ud = None then [] else [''proctorId''])
        @ (if ud_adminLevel ud = None then [] else [''adminLevel'']),
      (if ud_semester ud = Some NaN then [(''semester'', Cast)] else []))"

text \<open>
  The validators the schema declares, in the order of its paths: \<open>required\<close> on
  \<open>name\<close>, \<open>email\<close>, \<open>password\<close> and \<open>role\<close>; \<open>enum\<close> on \<open>role\<close>,
  \<open>department\<close> and \<open>adminLevel\<close>; \<open>min: 1\<close> and \<open>max: 8\<close> on
  \<open>semester\<close>. A path stops at its first failing validator; an absent optional path
  passes.
\<close>

definition validate :: "user \<Rightarrow> (string \<times> vkind) list" where
  "validate u =
     (if name u = [] then [(''name'', Required)] else [])
     @ (if email u = [] then [(''email'', Required)] else [])
     @ (if password u = [] then [(''password'', Required)] else [])
     @ (if role u = [] then [(''role'', Required)]
        else if role u \<notin> set [''student'', ''proctor'', ''admin''] then [(''role'', Enum)]
        else [])
     @ (case department u of
          None \<Rightarrow> []
        | Some d \<Rightarrow>
            if d \<notin> set [''CSE'', ''ECE'', ''EEE'', ''MECH'', ''CIVIL'', ''IT'', ''OTHER'']
            then [(''department'', Enum)] else [])
     @ (case semester u of
          None \<Rightarrow> []
        | Some n \<Rightarrow>
            if n < 1 then [(''semester'', Min)]
            else if 8 < n then [(''semester'', Max)]
            else [])
     @ (if adminLevel u \<notin> set [''super'', ''department'', ''limited'']
        then [(''adminLevel'', Enum)] else [])"

text \<open>The collection: the stored documents, oldest first.\<close>

type_synonym db = "user list"

text \<open>\<open>User.findOne({ email: e })\<close>.\<close>

definition findOne :: "db \<Rightarrow> string \<Rightarrow> user option" where
  "findOne db e = find (\<lambda>d. email d = e) db"

text \<open>
  \<open>user.save()\<close> on a new document: validation runs first, then the pre-save hook,
  then the insert, which the unique indexes on \<open>_id\<close> and \<open>email\<close> refuse with the
  duplicate-key error 11000.
\<close>

definition save_new :: "bcrypt \<Rightarrow> string \<Rightarrow> user \<times> string list \<times> (string \<times> vkind) list \<Rightarrow> db \<Rightarrow> exn + user \<times> db" where
  "save_new lib salt doc db =
     (case doc of (u, modified, cast_errors) \<Rightarrow>
        if cast_errors @ validate u \<noteq> [] then Inl (ValidationError (cast_errors @ validate u))
        else
          (case pre_save lib salt modified u of (u', m') \<Rightarrow>
             if list_ex (\<lambda>d. user_id d = user_id u' \<or> email d = email u') db
             then Inl (MongoServerError 11000)
             else Inr (u', db @ [u'])))"

text \<open>\<open>$set\<close> of one path of the document \<open>src\<close> on the stored document \<open>dst\<close>.\<close>

definition set_path :: "user \<Rightarrow> user \<Rightarrow> string \<Rightarrow> user" where
  "set_path src dst p =
     (if p = ''name'' then dst\<lparr>name := name src\<rparr>
      else if p = ''email'' then dst\<lparr>email := email src\<rparr>
      else if p = ''password'' then dst\<lparr>password := password src\<rparr>
      else if p = ''role'' then dst\<lparr>role := role src\<rparr>
      else if p = ''rollNumber'' then dst\<lparr>rollNumber := rollNumber src\<rparr>
      else if p = ''department'' then dst\<lparr>department := department src\<rparr>
      else if p = ''semester'' then dst\<lparr>semester := semester src\<rparr>
      else if p = ''batch'' then dst\<lparr>batch := batch src\<rparr>
      else if p = ''proctorId'' then dst\<lparr>proctorId := proctorId src\<rparr>
      else if p = ''assignedStudents'' then dst\<lparr>assignedStudents := assignedStudents src\<rparr>
      else if p = ''adminLevel'' then dst\<lparr>adminLevel := adminLevel src\<rparr>
      else if p = ''permissions'' then dst\<lparr>permissions := permissions src\<rparr>
      else if p = ''createdAt'' then dst\<lparr>createdAt := createdAt src\<rparr>
      else if p = ''lastLogin'' then dst\<lparr>lastLogin := lastLogin src\<rparr>
      else if p = ''isActive'' then dst\<lparr>isActive := isActive src\<rparr>
      else if p = ''profilePicture'' then dst\<lparr>profilePicture := profilePicture src\<rparr>
      else if p = ''phone'' then dst\<lparr>phone := phone src\<rparr>
      else dst)"

text \<open>\<open>updateOne({ _id: oid }, ...)\<close>: the first document with that \<open>_id\<close>, if any.\<close>

fun updateOne :: "string \<Rightarrow> (user \<Rightarrow> user) \<Rightarrow> db \<Rightarrow> db option" where
  "updateOne oid f [] = None"
| "updateOne oid f (d # ds) =
     (if user_id d = oid then Some (f d # ds)
      else (case updateOne oid f ds of None \<Rightarrow> None | Some ds' \<Rightarrow> Some (d # ds')))"

text \<open>
  \<open>user.save()\<close> on a document loaded from the store: validation, the pre-save hook,
  then an update that sets the modified paths only.
\<close>

definition save_existing :: "bcrypt \<Rightarrow> string \<Rightarrow> user \<times> string list \<Rightarrow> db \<Rightarrow> exn + user \<times> db" where
  "save_existing lib salt doc db =
     (case doc of (u, modified) \<Rightarrow>
        if validate u \<noteq> [] then Inl (ValidationError (validate u))
        else
          (case pre_save lib salt modified u of (u', m') \<Rightarrow>
             if ''email'' \<in> set m' \<and> list_ex (\<lambda>d. user_id d \<noteq> user_id u' \<and> email d = email u') db
             then Inl (MongoServerError 11000)
             else
               (case updateOne (user_id u') (\<lambda>d. foldl (set_path u') d m') db of
                  None \<Rightarrow> Inl DocumentNotFoundError
                | Some db' \<Rightarrow> Inr (u', db'))))"

section \<open>The token library\<close>

text \<open>
  The claims of a token: \<open>userId\<close> and \<open>role\<close>, as the handlers sign them, with
  the issue and expiry times in seconds that the library adds.
\<close>

record jwt_payload =
  jwt_userId :: string
  jwt_role :: string
  jwt_iat :: nat
  jwt_exp :: nat

text \<open>
  The primitives under the token library are parameters: the keyed MAC over the signing
  input, and the encoding of the claims as a token segment with its decoder.
\<close>

record jwt =
  hmac :: "string \<Rightarrow> string \<Rightarrow> string"
  encode_payload :: "jwt_payload \<Rightarrow> string"
  decode_payload :: "string \<Rightarrow> jwt_payload option"

text \<open>
  A segment of a token is text of the URL-safe alphabet; all that matters here is that it
  holds neither a dot nor a space.
\<close>

definition segment :: "string \<Rightarrow> bool" where
  "segment s = (CHR ''.'' \<notin> set s \<and> CHR '' '' \<notin> set s)"

text \<open>The first segment of every token: the encoded header of the HS256 algorithm.\<close>

definition jwt_header :: string where
  "jwt_header = ''eyJhbGciOiJIUzI1NiIsInR5cCI6IkpXVCJ9''"

text \<open>
  Modelled from the spec: \<open>jwt.sign\<close> of the \<open>jsonwebtoken\<close> package, which is not
  under src/ (spec 4.4, \<open>issue\<close>). The token binds identity and role, expires
  \<open>expiresIn\<close> seconds after issuance and is tamper-evident: three segments joined by
  dots, the last one the MAC of the first two under the secret. The clock is in
  milliseconds.
\<close>

definition jwt_claims :: "string \<Rightarrow> string \<Rightarrow> nat \<Rightarrow> nat \<Rightarrow> jwt_payload" where
  "jwt_claims uid r expiresIn now =
     \<lparr>jwt_userId = uid, jwt_role = r, jwt_iat = now div 1000,
      jwt_exp = now div 1000 + expiresIn\<rparr>"

definition signing_input :: "jwt \<Rightarrow> jwt_payload \<Rightarrow> string" where
  "signing_input lib p = jwt_header @ ''.'' @ encode_payload lib p"

definition jwt_sign :: "jwt \<Rightarrow> string \<Rightarrow> string \<Rightarrow> string \<Rightarrow> nat \<Rightarrow> nat \<Rightarrow> string" where
  "jwt_sign lib uid r secret expiresIn now =
     (let input = signing_input lib (jwt_claims uid r expiresIn now)
      in input @ ''.'' @ hmac lib secret input)"

text \<open>
  Modelled from the spec: \<open>jwt.verify\<close> of the \<open>jsonwebtoken\<close> package, which is not
  under src/ (spec 4.4, \<open>verify\<close>). It fails when the token is malformed, when the
  signature does not match, and when the token has expired; otherwise it returns the
  claims.
\<close>

definition jwt_verify :: "jwt \<Rightarrow> string \<Rightarrow> string \<Rightarrow> nat \<Rightarrow> exn + jwt_payload" where
  "jwt_verify lib token secret now =
     (case split CHR ''.'' token of
        [h, p, sg] \<Rightarrow>
          (case decode_payload lib p of
             None \<Rightarrow> Inl JsonWebTokenError
           | Some decoded \<Rightarrow>
               if h \<noteq> jwt_header then Inl JsonWebTokenError
               else if sg \<noteq> hmac lib secret (h @ ''.'' @ p) then Inl JsonWebTokenError
               else if jwt_exp decoded \<le> now div 1000 then Inl TokenExpiredError
               else Inr decoded)
      | _ \<Rightarrow> Inl JsonWebTokenError)"

section \<open>The routes (routes/auth.js)\<close>

text \<open>
  What the module holds once it is loaded: the two libraries, the signing secret and the
  \<open>NODE_ENV\<close> of the process environment.
\<close>

record ctx =
  bcrypt_lib :: bcrypt
  jwt_lib :: jwt
  JWT_SECRET :: string
  NODE_ENV :: "string option"

text \<open>
  Loading the module: \<open>process.exit(1)\<close> when \<open>JWT_SECRET\<close> is absent from the
  environment or empty, the module otherwise.
\<close>

datatype startup = Exit nat | Loaded ctx

definition load_auth :: "bcrypt \<Rightarrow> jwt \<Rightarrow> (string \<Rightarrow> string option) \<Rightarrow> startup" where
  "load_auth b j env =
     (case env ''JWT_SECRET'' of
        None \<Rightarrow> Exit 1
      | Some secret \<Rightarrow>
          if secret = [] then Exit 1
          else Loaded \<lparr>bcrypt_lib = b, jwt_lib = j, JWT_SECRET = secret,
                       NODE_ENV = env ''NODE_ENV''\<rparr>)"

definition generateToken :: "ctx \<Rightarrow> nat \<Rightarrow> string \<Rightarrow> string \<Rightarrow> string" where
  "generateToken c now userId r =
     jwt_sign (jwt_lib c) userId r (JWT_SECRET c) (7 * 24 * 60 * 60) now"

text \<open>A value of the object that \<open>safeUser\<close> returns.\<close>

datatype fval = FUndefined | FStr string | FNum int | FPermissions permissions

definition opt :: "('a \<Rightarrow> fval) \<Rightarrow> 'a option \<Rightarrow> fval" where
  "opt f v = (case v of None \<Rightarrow> FUndefined | Some x \<Rightarrow> f x)"

definition safeUser :: "user \<Rightarrow> (string \<times> fval) list" where
  "safeUser u =
     [(''id'', FStr (user_id u)),
      (''name'', FStr (name u)),
      (''email'', FStr (email u)),
      (''role'', FStr (role u)),
      (''rollNumber'', opt FStr (rollNumber u)),
      (''department'', opt FStr (department u)),
      (''semester'', opt FNum (semester u)),
      (''batch'', opt FStr (batch u)),
      (''proctorId'', opt FStr (proctorId u)),
      (''adminLevel'', FStr (adminLevel u)),
      (''permissions'', FPermissions (permissions u))]"

text \<open>
  The JSON body of a response: \<open>{ error }\<close> with a fixed message, \<open>{ error }\<close> with
  the joined messages of a validation error, \<open>{ error, detail }\<close> of a 500, and
  \<open>{ token, user }\<close>.
\<close>

datatype resp_body =
    ErrorMsg string
  | ErrorValidation "(string \<times> vkind) list"
  | ErrorDetail string "exn option"
  | TokenUser string "(string \<times> fval) list"

type_synonym response = "nat \<times> resp_body"

text \<open>
  \<open>req.body\<close>: the fields the two handlers destructure, and three fields of the
  document that they never read.
\<close>

record body =
  b_name :: jsval
  b_email :: jsval
  b_password :: jsval
  b_role :: jsval
  b_rollNumber :: jsval
  b_department :: jsval
  b_semester :: jsval
  b_batch :: jsval
  b_proctorId :: jsval
  b_adminLevel :: jsval
  b_permissions :: json
  b_isActive :: json
  b_assignedStudents :: json

text \<open>
  The values a request does not determine: the \<open>_id\<close> of a new document, the salt, the
  clock when the document is built or stamped, and the clock when the token is signed.
\<close>

record inputs =
  new_id :: string
  salt :: string
  clock :: nat
  token_clock :: nat

text \<open>\<open>!v || !v.trim()\<close>.\<close>

definition blank :: "jsval \<Rightarrow> exn + bool" where
  "blank v =
     (if \<not> truthy v then Inr True
      else (case call_str trim v of Inl e \<Rightarrow> Inl e | Inr s \<Rightarrow> Inr (s = [])))"

text \<open>
  \<open>!password || password.length < 6\<close>: a number or a boolean has no \<open>length\<close>, and
  \<open>undefined < 6\<close> is false.
\<close>

definition too_short :: "jsval \<Rightarrow> bool" where
  "too_short v = (\<not> truthy v \<or> (case v of JStr s \<Rightarrow> length s < 6 | _ \<Rightarrow> False))"

text \<open>Base field validation (lines 51 to 62): the message of the 400, if any.\<close>

definition validate_base :: "body \<Rightarrow> exn + string option" where
  "validate_base b =
     (case blank (b_name b) of
        Inl e \<Rightarrow> Inl e
      | Inr True \<Rightarrow> Inr (Some ''Name is required'')
      | Inr False \<Rightarrow>
          (case blank (b_email b) of
             Inl e \<Rightarrow> Inl e
           | Inr True \<Rightarrow> Inr (Some ''Email is required'')
           | Inr False \<Rightarrow>
               if too_short (b_password b)
               then Inr (Some ''Password must be at least 6 characters'')
               else if b_role b \<notin> set [JStr ''student'', JStr ''proctor'', JStr ''admin'']
               then Inr (Some ''Invalid role'')
               else Inr None))"

text \<open>Role-specific validation (lines 65 to 77).\<close>

definition validate_role :: "body \<Rightarrow> string option" where
  "validate_role b =
     (if b_role b = JStr ''student'' then
        (if \<not> truthy (b_rollNumber b) then Some ''Roll number is required''
         else if \<not> truthy (b_department b) then Some ''Department is required''
         else if \<not> truthy (b_semester b) then Some ''Semester is required''
         else if \<not> truthy (b_batch b) then Some ''Batch is required''
         else None)
      else if b_role b = JStr ''proctor'' then
        (if \<not> truthy (b_proctorId b) then Some ''Proctor ID is required''
         else if \<not> truthy (b_department b) then Some ''Department is required''
         else None)
      else if b_role b = JStr ''admin'' then
        (if \<not> truthy (b_department b) then Some ''Department is required''
         else None)
      else None)"

text \<open>\<open>email.toLowerCase().trim()\<close>.\<close>

definition lower_trim :: "jsval \<Rightarrow> exn + string" where
  "lower_trim v = call_str (\<lambda>s. trim (toLowerCase s)) v"

text \<open>\<open>v.trim().toUpperCase()\<close>.\<close>

definition trim_upper :: "jsval \<Rightarrow> exn + string" where
  "trim_upper v = call_str (\<lambda>s. toUpperCase (trim s)) v"

text \<open>Building \<open>userData\<close> (lines 88 to 106).\<close>

definition build_userData :: "body \<Rightarrow> exn + userData" where
  "build_userData b =
     (case call_str trim (b_name b) of
        Inl e \<Rightarrow> Inl e
      | Inr n \<Rightarrow>
     (case lower_trim (b_email b) of
        Inl e \<Rightarrow> Inl e
      | Inr em \<Rightarrow>
     (let ud = \<lparr>ud_name = n, ud_email = em, ud_password = b_password b, ud_role = b_role b,
                ud_rollNumber = None, ud_department = JUndefined, ud_semester = None,
                ud_batch = None, ud_proctorId = None, ud_adminLevel = None\<rparr>
      in
        if b_role b = JStr ''student'' then
          (case trim_upper (b_rollNumber b) of
             Inl e \<Rightarrow> Inl e
           | Inr rn \<Rightarrow>
          (case call_str trim (b_batch b) of
             Inl e \<Rightarrow> Inl e
           | Inr bt \<Rightarrow>
               Inr (ud\<lparr>ud_rollNumber := Some rn,
                       ud_department := b_department b,
                       ud_semester := Some (parseInt (b_semester b)),
                       ud_batch := Some bt\<rparr>)))
        else if b_role b = JStr ''proctor'' then
          (case trim_upper (b_proctorId b) of
             Inl e \<Rightarrow> Inl e
           | Inr pid \<Rightarrow>
               Inr (ud\<lparr>ud_proctorId := Some pid, ud_department := b_department b\<rparr>))
        else if b_role b = JStr ''admin'' then
          Inr (ud\<lparr>ud_adminLevel :=
                    Some (if truthy (b_adminLevel b) then b_adminLevel b else JStr ''limited''),
                  ud_department := b_department b\<rparr>)
        else Inr ud)))"

text \<open>
  The \<open>try\<close> block of \<open>POST /register\<close>. The handler awaits the store twice, so the
  store it looks the email up in (\<open>db_check\<close>) and the store it inserts into
  (\<open>db_save\<close>) are two arguments: another request may have written in between. The
  result is the response with the store after the request, or the exception thrown.
\<close>

definition register_try :: "ctx \<Rightarrow> inputs \<Rightarrow> body \<Rightarrow> db \<Rightarrow> db \<Rightarrow> exn + response \<times> db" where
  "register_try c inp b db_check db_save =
     (case validate_base b of
        Inl e \<Rightarrow> Inl e
      | Inr (Some msg) \<Rightarrow> Inr ((400, ErrorMsg msg), db_save)
      | Inr None \<Rightarrow>
     (case validate_role b of
        Some msg \<Rightarrow> Inr ((400, ErrorMsg msg), db_save)
      | None \<Rightarrow>
     (case lower_trim (b_email b) of
        Inl e \<Rightarrow> Inl e
      | Inr em \<Rightarrow>
     (case findOne db_check em of
        Some existing \<Rightarrow> Inr ((400, ErrorMsg ''Email already registered''), db_save)
      | None \<Rightarrow>
     (case build_userData b of
        Inl e \<Rightarrow> Inl e
      | Inr ud \<Rightarrow>
     (case save_new (bcrypt_lib c) (salt inp) (new_User (new_id inp) (clock inp) ud) db_save of
        Inl e \<Rightarrow> Inl e
      | Inr (u, db') \<Rightarrow>
          Inr ((201, TokenUser (generateToken c (token_clock inp) (user_id u) (role u))
                               (safeUser u)),
               db')))))))"

text \<open>The \<open>catch\<close> block of \<open>POST /register\<close>.\<close>

definition register_catch :: "ctx \<Rightarrow> exn \<Rightarrow> response" where
  "register_catch c error =
     (if error = MongoServerError 11000 then (400, ErrorMsg ''Email already registered'')
      else (case error of
              ValidationError errors \<Rightarrow> (400, ErrorValidation errors)
            | _ \<Rightarrow>
                (500, ErrorDetail ''Registration failed. Please try again.''
                        (if NODE_ENV c = Some ''development'' then Some error else None))))"

definition register_at :: "ctx \<Rightarrow> inputs \<Rightarrow> body \<Rightarrow> db \<Rightarrow> db \<Rightarrow> response \<times> db" where
  "register_at c inp b db_check db_save =
     (case register_try c inp b db_check db_save of
        Inl error \<Rightarrow> (register_catch c error, db_save)
      | Inr r \<Rightarrow> r)"

text \<open>\<open>POST /register\<close> with no other request in between.\<close>

definition register :: "ctx \<Rightarrow> inputs \<Rightarrow> body \<Rightarrow> db \<Rightarrow> response \<times> db" where
  "register c inp b db = register_at c inp b db db"

text \<open>
  \<open>bcrypt.compare(password, user.password)\<close> in the login handler: the library throws
  on a candidate that is not a string.
\<close>

definition compare_js :: "bcrypt \<Rightarrow> jsval \<Rightarrow> string \<Rightarrow> exn + bool" where
  "compare_js lib v digest =
     (case v of JStr s \<Rightarrow> Inr (bcrypt_compare lib s digest) | _ \<Rightarrow> Inl IllegalArguments)"

text \<open>The \<open>try\<close> block of \<open>POST /login\<close>.\<close>

definition login_try :: "ctx \<Rightarrow> inputs \<Rightarrow> body \<Rightarrow> db \<Rightarrow> exn + response \<times> db" where
  "login_try c inp b db =
     (if \<not> truthy (b_email b) \<or> \<not> truthy (b_password b)
      then Inr ((400, ErrorMsg ''Email and password are required''), db)
      else
     (case lower_trim (b_email b) of
        Inl e \<Rightarrow> Inl e
      | Inr em \<Rightarrow>
     (case findOne db em of
        None \<Rightarrow> Inr ((401, ErrorMsg ''Invalid credentials''), db)
      | Some u \<Rightarrow>
          if \<not> isActive u
          then Inr ((401, ErrorMsg ''Account is deactivated. Contact admin.''), db)
          else
     (case compare_js (bcrypt_lib c) (b_password b) (password u) of
        Inl e \<Rightarrow> Inl e
      | Inr isMatch \<Rightarrow>
          if \<not> isMatch then Inr ((401, ErrorMsg ''Invalid credentials''), db)
          else
     (case save_existing (bcrypt_lib c) (salt inp)
             (u\<lparr>lastLogin := Some (clock inp)\<rparr>, [''lastLogin'']) db of
        Inl e \<Rightarrow> Inl e
      | Inr (u', db') \<Rightarrow>
          Inr ((200, TokenUser (generateToken c (token_clock inp) (user_id u') (role u'))
                               (safeUser u')),
               db'))))))"

text \<open>\<open>POST /login\<close>, with its \<open>catch\<close> block.\<close>

definition login :: "ctx \<Rightarrow> inputs \<Rightarrow> body \<Rightarrow> db \<Rightarrow> response \<times> db" where
  "login c inp b db =
     (case login_try c inp b db of
        Inl error \<Rightarrow>
          ((500, ErrorDetail ''Login failed. Please try again.''
                   (if NODE_ENV c = Some ''development'' then Some error else None)),
           db)
      | Inr r \<Rightarrow> r)"

text \<open>
  The Auth Gate. It either responds itself or calls \<open>next()\<close> with \<open>req.userId\<close> and
  \<open>req.userRole\<close> set. The argument is \<open>req.headers.authorization\<close>, a string when
  the header is present.
\<close>

record req =
  userId :: string
  userRole :: string

datatype gate = Respond response | Next req

definition authMiddleware :: "ctx \<Rightarrow> nat \<Rightarrow> string option \<Rightarrow> gate" where
  "authMiddleware c now authorization =
     (case authorization of
        None \<Rightarrow> Respond (401, ErrorMsg ''No token provided'')
      | Some authHeader \<Rightarrow>
          if authHeader = [] \<or> \<not> startsWith authHeader ''Bearer ''
          then Respond (401, ErrorMsg ''No token provided'')
          else
            (case index (split CHR '' '' authHeader) 1 of
               None \<Rightarrow> Respond (401, ErrorMsg ''Malformed authorization header'')
             | Some token \<Rightarrow>
                 if token = [] then Respond (401, ErrorMsg ''Malformed authorization header'')
                 else
                   (case jwt_verify (jwt_lib c) token (JWT_SECRET c) now of
                      Inl error \<Rightarrow> Respond (401, ErrorMsg ''Invalid or expired token'')
                    | Inr decoded \<Rightarrow>
                        Next \<lparr>userId = jwt_userId decoded, userRole = jwt_role decoded\<rparr>)))"

section \<open>Example values\<close>

text \<open>Concrete libraries, documents and requests on which the theorems are instantiated.\<close>

definition demo_bcrypt :: bcrypt where
  "demo_bcrypt =
     \<lparr>bcrypt_hash = (\<lambda>p s. s @ p),
      bcrypt_compare = (\<lambda>p h. drop (length h - length p) h = p)\<rparr>"

definition demo_encode :: "jwt_payload \<Rightarrow> string" where
  "demo_encode p =
     jwt_userId p @ ''-'' @ jwt_role p @ ''-'' @ digits (jwt_iat p) @ ''-'' @ digits (jwt_exp p)"

definition demo_decode :: "string \<Rightarrow> jwt_payload option" where
  "demo_decode s =
     (case split CHR ''-'' s of
        [u, r, i, e] \<Rightarrow>
          (case (parse_digits 10 i, parse_digits 10 e) of
             (Some a, Some b) \<Rightarrow> Some \<lparr>jwt_userId = u, jwt_role = r, jwt_iat = a, jwt_exp = b\<rparr>
           | _ \<Rightarrow> None)
      | _ \<Rightarrow> None)"

definition demo_jwt :: jwt where
  "demo_jwt =
     \<lparr>hmac = (\<lambda>k m. map (\<lambda>ch. if ch = CHR ''.'' \<or> ch = CHR '' '' then CHR ''_'' else ch) (k @ m)),
      encode_payload = demo_encode,
      decode_payload = demo_decode\<rparr>"

definition demo_ctx :: ctx where
  "demo_ctx =
     \<lparr>bcrypt_lib = demo_bcrypt, jwt_lib = demo_jwt, JWT_SECRET = ''k'', NODE_ENV = None\<rparr>"

definition demo_admin :: user where
  "demo_admin =
     \<lparr>user_id = ''u2'', name = ''B'', email = ''b@x.com'', password = ''secret2'',
      role = ''admin'', rollNumber = None, department = Some ''CSE'', semester = None,
      batch = None, proctorId = None, assignedStudents = [], adminLevel = ''super'',
      permissions = default_permissions, createdAt = 0, lastLogin = None, isActive = True,
      profilePicture = None, phone = None\<rparr>"

text \<open>The student of the end-to-end scenario, as stored after registration.\<close>

definition demo_student :: user where
  "demo_student =
     \<lparr>user_id = ''u1'', name = ''A'', email = ''a@x.com'', password = ''$2a$10$secret1'',
      role = ''student'', rollNumber = Some ''R1'', department = Some ''CSE'',
      semester = Some 3, batch = Some ''2024'', proctorId = None, assignedStudents = [],
      adminLevel = ''limited'', permissions = default_permissions, createdAt = 1000,
      lastLogin = None, isActive = True, profilePicture = None, phone = None\<rparr>"

text \<open>A body with no field set, and the clocks and random values of one request.\<close>

definition empty_body :: body where
  "empty_body =
     \<lparr>b_name = JUndefined, b_email = JUndefined, b_password = JUndefined,
      b_role = JUndefined, b_rollNumber = JUndefined, b_department = JUndefined,
      b_semester = JUndefined, b_batch = JUndefined, b_proctorId = JUndefined,
      b_adminLevel = JUndefined, b_permissions = Prim JUndefined,
      b_isActive = Prim JUndefined, b_assignedStudents = Prim JUndefined\<rparr>"

definition demo_inputs :: inputs where
  "demo_inputs = \<lparr>new_id = ''u1'', salt = ''$2a$10$'', clock = 1000, token_clock = 2000\<rparr>"

text \<open>The registration request of the end-to-end scenario.\<close>

definition demo_body :: body where
  "demo_body =
     empty_body
       \<lparr>b_name := JStr ''A'', b_email := JStr ''a@x.com'', b_password := JStr ''secret1'',
        b_role := JStr ''student'', b_rollNumber := JStr ''r1'', b_department := JStr ''CSE'',
        b_semester := num 3, b_batch := JStr ''2024''\<rparr>"

text \<open>
  An admin registration that also sends \<open>permissions\<close>, \<open>isActive\<close> and
  \<open>assignedStudents\<close>.
\<close>

definition demo_admin_body :: body where
  "demo_admin_body =
     empty_body
       \<lparr>b_name := JStr ''B'', b_email := JStr ''b@x.com'', b_password := JStr ''secret2'',
        b_role := JStr ''admin'', b_department := JStr ''CSE'',
        b_adminLevel := JStr ''limited'',
        b_permissions := Obj [(''manageAdmins'', Prim (JBool True))],
        b_isActive := Prim (JBool False),
        b_assignedStudents := Arr [Prim (JStr ''u1'')]\<rparr>"

section \<open>Numbers\<close>

lemma num_simps:
  assumes "- 9007199254740991 \<le> i" and "i \<le> 9007199254740991"
  shows "truthy (num i) = (i \<noteq> 0)" and "toString (num i) = show_int i"
    and "cast_string (num i) = Some (show_int i)" and "num i \<noteq> JStr s"
  using assms by (simp_all add: num_def Abs_safe_int_inverse)

section \<open>The Permission Deriver\<close>

text \<open>
  C1. When the pre-save hook runs on an admin document whose \<open>adminLevel\<close> is
  modified, the saved permissions are a function of \<open>adminLevel\<close> alone and equal the
  fixed table: \<open>super\<close> has all six capabilities, \<open>department\<close> all but
  \<open>manageAdmins\<close>, \<open>limited\<close> only \<open>manageCalendar\<close> and \<open>viewAnalytics\<close>.
  For a document whose role is not admin, \<open>hasPermission\<close> is false for every
  capability, whatever \<open>adminLevel\<close> and the stored permissions are.
\<close>

theorem permission_deriver:
  "(role u = ''admin'' \<and> ''adminLevel'' \<in> set modified \<longrightarrow>
      permissions (fst (pre_save lib sa modified u)) = level_permissions (adminLevel u) \<and>
      (adminLevel u = ''super'' \<longrightarrow>
         permissions (fst (pre_save lib sa modified u)) =
           \<lparr>manageCalendar = True, manageUsers = True, viewAnalytics = True,
            manageProctors = True, manageAdmins = True, exportReports = True\<rparr>) \<and>
      (adminLevel u = ''department'' \<longrightarrow>
         permissions (fst (pre_save lib sa modified u)) =
           \<lparr>manageCalendar = True, manageUsers = True, viewAnalytics = True,
            manageProctors = True, manageAdmins = False, exportReports = True\<rparr>) \<and>
      (adminLevel u = ''limited'' \<longrightarrow>
         permissions (fst (pre_save lib sa modified u)) =
           \<lparr>manageCalendar = True, manageUsers = False, viewAnalytics = True,
            manageProctors = False, manageAdmins = False, exportReports = False\<rparr>)) \<and>
   (role u \<noteq> ''admin'' \<longrightarrow>
      hasPermission (u\<lparr>adminLevel := lvl, permissions := ps\<rparr>) capability = False)"
  by (simp add: pre_save_def level_permissions_def hasPermission_def Let_def)

theorem permission_deriver_witness:
  "permissions (fst (pre_save demo_bcrypt ''s'' [''adminLevel''] demo_admin)) =
     \<lparr>manageCalendar = True, manageUsers = True, viewAnalytics = True,
      manageProctors = True, manageAdmins = True, exportReports = True\<rparr> \<and>
   permissions (fst (pre_save demo_bcrypt ''s'' [''adminLevel'']
       (demo_admin\<lparr>adminLevel := ''department''\<rparr>))) =
     \<lparr>manageCalendar = True, manageUsers = True, viewAnalytics = True,
      manageProctors = True, manageAdmins = False, exportReports = True\<rparr> \<and>
   permissions (fst (pre_save demo_bcrypt ''s'' [''adminLevel'']
       (demo_admin\<lparr>adminLevel := ''limited''\<rparr>))) =
     \<lparr>manageCalendar = True, manageUsers = False, viewAnalytics = True,
      manageProctors = False, manageAdmins = False, exportReports = False\<rparr> \<and>
   hasPermission (demo_admin\<lparr>role := ''proctor'', adminLevel := ''super'',
       permissions := level_permissions ''super''\<rparr>) ''manageUsers'' = False"
  using permission_deriver [of demo_admin "[''adminLevel'']" demo_bcrypt "''s''"]
    permission_deriver [of "demo_admin\<lparr>adminLevel := ''department''\<rparr>" "[''adminLevel'']"
      demo_bcrypt "''s''"]
    permission_deriver [of "demo_admin\<lparr>adminLevel := ''limited''\<rparr>" "[''adminLevel'']"
      demo_bcrypt "''s''"]
    permission_deriver [where u = "demo_admin\<lparr>role := ''proctor''\<rparr>" and lvl = "''super''"
      and ps = "level_permissions ''super''" and capability = "''manageUsers''"]
  by (simp add: demo_admin_def level_permissions_def)

section \<open>Splitting strings\<close>

lemma split_no_sep: "c \<notin> set s \<Longrightarrow> split c s = [s]"
  by (induction s) auto

lemma split_append: "c \<notin> set a \<Longrightarrow> split c (a @ c # b) = a # split c b"
  by (induction a) auto

lemma split_bearer: "split CHR '' '' (''Bearer '' @ t) = ''Bearer'' # split CHR '' '' t"
  using split_append [of "CHR '' ''" "''Bearer''" t] by simp

lemma index_bearer:
  "CHR '' '' \<notin> set t \<Longrightarrow> index (split CHR '' '' (''Bearer '' @ t)) 1 = Some t"
  by (simp add: split_bearer split_no_sep index_def del: append.simps)

section \<open>The Auth Gate\<close>

lemma authMiddleware_bearer:
  assumes "token \<noteq> []" and "CHR '' '' \<notin> set token"
  shows "authMiddleware c now (Some (''Bearer '' @ token)) =
     (case jwt_verify (jwt_lib c) token (JWT_SECRET c) now of
        Inl error \<Rightarrow> Respond (401, ErrorMsg ''Invalid or expired token'')
      | Inr decoded \<Rightarrow> Next \<lparr>userId = jwt_userId decoded, userRole = jwt_role decoded\<rparr>)"
  using assms index_bearer [of token]
  by (simp add: authMiddleware_def startsWith_def)

text \<open>
  C7. The Auth Gate answers 401 in three shapes: "No token provided" when the
  \<open>Authorization\<close> header is absent or does not start with \<open>Bearer \<close>, "Malformed
  authorization header" when the header is exactly \<open>Bearer \<close>, and "Invalid or expired
  token" when the token after the prefix fails verification. When verification succeeds
  the identity and role of the token are set on the request and control passes on.
\<close>

theorem auth_gate:
  "authMiddleware c now None = Respond (401, ErrorMsg ''No token provided'') \<and>
   (\<not> startsWith h ''Bearer '' \<longrightarrow>
      authMiddleware c now (Some h) = Respond (401, ErrorMsg ''No token provided'')) \<and>
   authMiddleware c now (Some ''Bearer '') =
     Respond (401, ErrorMsg ''Malformed authorization header'') \<and>
   (token \<noteq> [] \<and> CHR '' '' \<notin> set token \<longrightarrow>
      (jwt_verify (jwt_lib c) token (JWT_SECRET c) now = Inl e \<longrightarrow>
         authMiddleware c now (Some (''Bearer '' @ token)) =
           Respond (401, ErrorMsg ''Invalid or expired token'')) \<and>
      (jwt_verify (jwt_lib c) token (JWT_SECRET c) now = Inr decoded \<longrightarrow>
         authMiddleware c now (Some (''Bearer '' @ token)) =
           Next \<lparr>userId = jwt_userId decoded, userRole = jwt_role decoded\<rparr>))"
proof -
  have none: "authMiddleware c now None = Respond (401, ErrorMsg ''No token provided'')"
    by (simp add: authMiddleware_def)
  have scheme: "authMiddleware c now (Some h) = Respond (401, ErrorMsg ''No token provided'')"
    if "\<not> startsWith h ''Bearer ''"
    using that by (simp add: authMiddleware_def)
  have empty: "authMiddleware c now (Some ''Bearer '') =
      Respond (401, ErrorMsg ''Malformed authorization header'')"
    by (simp add: authMiddleware_def startsWith_def index_def)
  show ?thesis
    using none scheme empty authMiddleware_bearer [of token c now] by simp
qed

lemma demo_token:
  "generateToken demo_ctx 2000 ''u1'' ''student'' =
     ''eyJhbGciOiJIUzI1NiIsInR5cCI6IkpXVCJ9.u1-student-2-604802.keyJhbGciOiJIUzI1NiIsInR5cCI6IkpXVCJ9_u1-student-2-604802''"
  by (simp add: generateToken_def jwt_sign_def signing_input_def jwt_claims_def demo_ctx_def
      demo_jwt_def demo_encode_def jwt_header_def digit_char_def)

lemma demo_decode_claims:
  "demo_decode ''u1-student-2-604802'' =
     Some \<lparr>jwt_userId = ''u1'', jwt_role = ''student'', jwt_iat = 2, jwt_exp = 604802\<rparr>"
  by (simp add: demo_decode_def parse_digits_def is_digit_def digit_val_def digits_val_def)

lemma demo_verify:
  "jwt_verify demo_jwt (generateToken demo_ctx 2000 ''u1'' ''student'') ''k'' 5000 =
     Inr \<lparr>jwt_userId = ''u1'', jwt_role = ''student'', jwt_iat = 2, jwt_exp = 604802\<rparr>"
  unfolding demo_token jwt_verify_def
  by (simp add: demo_jwt_def demo_decode_claims jwt_header_def)

theorem auth_gate_witness:
  "authMiddleware demo_ctx 5000 None = Respond (401, ErrorMsg ''No token provided'') \<and>
   authMiddleware demo_ctx 5000 (Some ''Basic dXNlcg'') =
     Respond (401, ErrorMsg ''No token provided'') \<and>
   authMiddleware demo_ctx 5000 (Some ''Bearer '') =
     Respond (401, ErrorMsg ''Malformed authorization header'') \<and>
   authMiddleware demo_ctx 5000 (Some (''Bearer '' @ ''abc'')) =
     Respond (401, ErrorMsg ''Invalid or expired token'') \<and>
   authMiddleware demo_ctx 5000 (Some (''Bearer '' @ generateToken demo_ctx 2000 ''u1'' ''student'')) =
     Next \<lparr>userId = ''u1'', userRole = ''student''\<rparr>"
proof -
  have lib: "jwt_lib demo_ctx = demo_jwt" "JWT_SECRET demo_ctx = ''k''"
    by (simp_all add: demo_ctx_def)
  have bad: "jwt_verify demo_jwt ''abc'' ''k'' 5000 = Inl JsonWebTokenError"
    unfolding jwt_verify_def by simp
  have nospace: "CHR '' '' \<notin> set (generateToken demo_ctx 2000 ''u1'' ''student'')"
    unfolding demo_token by simp
  have nonempty: "generateToken demo_ctx 2000 ''u1'' ''student'' \<noteq> []"
    unfolding demo_token by simp
  have scheme: "\<not> startsWith ''Basic dXNlcg'' ''Bearer ''"
    by (simp add: startsWith_def)
  show ?thesis
    using auth_gate [of demo_ctx 5000 "''Basic dXNlcg''" "''abc''" JsonWebTokenError]
      auth_gate [of demo_ctx 5000 "''Basic dXNlcg''" "generateToken demo_ctx 2000 ''u1'' ''student''" _
        "\<lparr>jwt_userId = ''u1'', jwt_role = ''student'', jwt_iat = 2, jwt_exp = 604802\<rparr>"]
      bad demo_verify nospace nonempty scheme
    unfolding lib by simp
qed

section \<open>The Token Service\<close>

lemma split_length: "length (split c s) = Suc (length (filter ((=) c) s))"
  by (induction s) (auto split: list.splits)

lemma split_single: "split c s = [x] \<Longrightarrow> x = s \<and> c \<notin> set s"
proof -
  assume a: "split c s = [x]"
  then have "length (filter ((=) c) s) = 0"
    using split_length [of c s] by simp
  then have "c \<notin> set s"
    by (metis filter_empty_conv length_0_conv)
  then show ?thesis using a split_no_sep [of c s] by simp
qed

lemma header_segment: "segment jwt_header"
  by (simp add: segment_def jwt_header_def)

lemma split_token:
  assumes "segment e"
  shows "split CHR ''.'' (jwt_header @ ''.'' @ e @ ''.'' @ sg) = jwt_header # e # split CHR ''.'' sg"
proof -
  have "split CHR ''.'' (jwt_header @ CHR ''.'' # (e @ CHR ''.'' # sg)) =
      jwt_header # split CHR ''.'' (e @ CHR ''.'' # sg)"
    using header_segment by (intro split_append) (simp add: segment_def)
  moreover have "split CHR ''.'' (e @ CHR ''.'' # sg) = e # split CHR ''.'' sg"
    using assms by (intro split_append) (simp add: segment_def)
  ultimately show ?thesis by simp
qed

lemma verify_signed:
  assumes dec: "decode_payload lib e = Some p" and e: "segment e"
  shows "jwt_verify lib (jwt_header @ ''.'' @ e @ ''.'' @ sg) secret now =
     (if sg = hmac lib secret (jwt_header @ ''.'' @ e) \<and> CHR ''.'' \<notin> set sg
      then (if jwt_exp p \<le> now div 1000 then Inl TokenExpiredError else Inr p)
      else Inl JsonWebTokenError)"
proof (cases "split CHR ''.'' sg")
  case Nil
  then show ?thesis using split_length [of "CHR ''.''" sg] by simp
next
  case (Cons x xs)
  show ?thesis
  proof (cases xs)
    case Nil
    with Cons have "x = sg \<and> CHR ''.'' \<notin> set sg" using split_single by fastforce
    with Cons Nil dec show ?thesis
      unfolding jwt_verify_def split_token [OF e] by simp
  next
    case (Cons y ys)
    with \<open>split CHR ''.'' sg = x # xs\<close> have "CHR ''.'' \<in> set sg"
      using split_no_sep [of "CHR ''.''" sg] by auto
    with Cons \<open>split CHR ''.'' sg = x # xs\<close> dec show ?thesis
      unfolding jwt_verify_def split_token [OF e] by (simp split: list.splits)
  qed
qed

text \<open>
  C2. Token round trip. For the claims \<open>p\<close> of a token issued for \<open>uid\<close> and \<open>r\<close>
  at time \<open>t\<close>, on which the encoding of the library works (decoding the encoded
  claims gives them back, and the encoded claims and the MAC are segments): the Auth Gate,
  given the token right after issuance, recovers exactly \<open>uid\<close> and \<open>r\<close>;
  verification returns the claims at any time before the 7-day expiry; it fails when the
  signature is replaced by any other one, when the expiry has passed, and for any text
  that does not have three segments.
\<close>

theorem token_round_trip:
  assumes p: "p = jwt_claims uid r (7 * 24 * 60 * 60) t"
    and dec: "decode_payload (jwt_lib c) (encode_payload (jwt_lib c) p) = Some p"
    and enc: "segment (encode_payload (jwt_lib c) p)"
    and mac: "segment (hmac (jwt_lib c) (JWT_SECRET c) (signing_input (jwt_lib c) p))"
  shows
    "authMiddleware c t (Some (''Bearer '' @ generateToken c t uid r)) =
       Next \<lparr>userId = uid, userRole = r\<rparr> \<and>
     (t' div 1000 < t div 1000 + 7 * 24 * 60 * 60 \<longrightarrow>
        jwt_verify (jwt_lib c) (generateToken c t uid r) (JWT_SECRET c) t' = Inr p) \<and>
     (sg \<noteq> hmac (jwt_lib c) (JWT_SECRET c) (signing_input (jwt_lib c) p) \<longrightarrow>
        jwt_verify (jwt_lib c) (signing_input (jwt_lib c) p @ ''.'' @ sg) (JWT_SECRET c) t' =
          Inl JsonWebTokenError) \<and>
     (t div 1000 + 7 * 24 * 60 * 60 \<le> t' div 1000 \<longrightarrow>
        jwt_verify (jwt_lib c) (generateToken c t uid r) (JWT_SECRET c) t' =
          Inl TokenExpiredError) \<and>
     (length (split CHR ''.'' token) \<noteq> 3 \<longrightarrow>
        jwt_verify (jwt_lib c) token (JWT_SECRET c) t' = Inl JsonWebTokenError)"
proof -
  let ?lib = "jwt_lib c"
  let ?e = "encode_payload ?lib p"
  let ?m = "hmac ?lib (JWT_SECRET c) (signing_input ?lib p)"
  have tok: "generateToken c t uid r = jwt_header @ ''.'' @ ?e @ ''.'' @ ?m"
    by (simp add: generateToken_def jwt_sign_def signing_input_def p Let_def)
  have verify: "jwt_verify ?lib (jwt_header @ ''.'' @ ?e @ ''.'' @ sg') (JWT_SECRET c) now =
     (if sg' = ?m \<and> CHR ''.'' \<notin> set sg'
      then (if jwt_exp p \<le> now div 1000 then Inl TokenExpiredError else Inr p)
      else Inl JsonWebTokenError)" for sg' now
    using verify_signed [OF dec enc, of sg' "JWT_SECRET c" now]
    by (simp add: signing_input_def)
  have exp: "jwt_exp p = t div 1000 + 7 * 24 * 60 * 60"
    by (simp add: p jwt_claims_def)
  have fresh: "jwt_verify ?lib (generateToken c t uid r) (JWT_SECRET c) t' = Inr p"
    if "t' div 1000 < t div 1000 + 7 * 24 * 60 * 60" for t'
    unfolding tok using that mac verify [of ?m t'] exp by (simp add: segment_def)
  have expired: "jwt_verify ?lib (generateToken c t uid r) (JWT_SECRET c) t' = Inl TokenExpiredError"
    if "t div 1000 + 7 * 24 * 60 * 60 \<le> t' div 1000"
    unfolding tok using that mac verify [of ?m t'] exp by (simp add: segment_def)
  have altered: "jwt_verify ?lib (signing_input ?lib p @ ''.'' @ sg) (JWT_SECRET c) t' =
      Inl JsonWebTokenError" if "sg \<noteq> ?m"
    using that verify [of sg t'] by (simp add: signing_input_def)
  have malformed: "jwt_verify ?lib token (JWT_SECRET c) t' = Inl JsonWebTokenError"
    if "length (split CHR ''.'' token) \<noteq> 3"
    using that by (auto simp: jwt_verify_def split: list.splits)
  have nospace: "CHR '' '' \<notin> set (generateToken c t uid r)"
    unfolding tok using enc mac header_segment by (simp add: segment_def)
  have nonempty: "generateToken c t uid r \<noteq> []"
    unfolding tok by (simp add: jwt_header_def)
  have "jwt_verify ?lib (generateToken c t uid r) (JWT_SECRET c) t = Inr p"
    using fresh [of t] by simp
  then have gate: "authMiddleware c t (Some (''Bearer '' @ generateToken c t uid r)) =
      Next \<lparr>userId = uid, userRole = r\<rparr>"
    using authMiddleware_bearer [of "generateToken c t uid r" c t] nospace nonempty
    by (simp add: p jwt_claims_def)
  show ?thesis
    using gate fresh expired altered malformed by blast
qed


theorem token_round_trip_witness:
  "authMiddleware demo_ctx 2000 (Some (''Bearer '' @ generateToken demo_ctx 2000 ''u1'' ''student'')) =
     Next \<lparr>userId = ''u1'', userRole = ''student''\<rparr> \<and>
   jwt_verify demo_jwt (generateToken demo_ctx 2000 ''u1'' ''student'') ''k'' 604801999 =
     Inr (jwt_claims ''u1'' ''student'' 604800 2000) \<and>
   jwt_verify demo_jwt
     (signing_input demo_jwt (jwt_claims ''u1'' ''student'' 604800 2000) @ ''.'' @ ''forged'')
     ''k'' 2000 = Inl JsonWebTokenError \<and>
   jwt_verify demo_jwt (generateToken demo_ctx 2000 ''u1'' ''student'') ''k'' 604802000 =
     Inl TokenExpiredError \<and>
   jwt_verify demo_jwt ''not.a.signed.token'' ''k'' 2000 = Inl JsonWebTokenError"
proof -
  let ?p = "jwt_claims ''u1'' ''student'' (7 * 24 * 60 * 60) 2000"
  have p: "?p = \<lparr>jwt_userId = ''u1'', jwt_role = ''student'', jwt_iat = 2, jwt_exp = 604802\<rparr>"
    by (simp add: jwt_claims_def)
  have lib: "jwt_lib demo_ctx = demo_jwt" "JWT_SECRET demo_ctx = ''k''"
    by (simp_all add: demo_ctx_def)
  have enc: "encode_payload demo_jwt ?p = ''u1-student-2-604802''"
    unfolding p by (simp add: demo_jwt_def demo_encode_def digit_char_def)
  have dec: "decode_payload demo_jwt ''u1-student-2-604802'' = Some ?p"
    unfolding p by (simp add: demo_jwt_def demo_decode_claims)
  have seg: "segment ''u1-student-2-604802''"
    by (simp add: segment_def)
  have mac: "hmac demo_jwt ''k'' (signing_input demo_jwt ?p) =
      ''keyJhbGciOiJIUzI1NiIsInR5cCI6IkpXVCJ9_u1-student-2-604802''"
    unfolding signing_input_def enc by (simp add: demo_jwt_def jwt_header_def)
  have mseg: "segment ''keyJhbGciOiJIUzI1NiIsInR5cCI6IkpXVCJ9_u1-student-2-604802''"
    by (simp add: segment_def)
  have forged: "''forged'' \<noteq> ''keyJhbGciOiJIUzI1NiIsInR5cCI6IkpXVCJ9_u1-student-2-604802''"
    by simp
  have len: "length (split CHR ''.'' ''not.a.signed.token'') \<noteq> 3"
    by simp
  have hyps: "?p = jwt_claims ''u1'' ''student'' (7 * 24 * 60 * 60) 2000"
    "decode_payload (jwt_lib demo_ctx) (encode_payload (jwt_lib demo_ctx) ?p) = Some ?p"
    "segment (encode_payload (jwt_lib demo_ctx) ?p)"
    "segment (hmac (jwt_lib demo_ctx) (JWT_SECRET demo_ctx) (signing_input (jwt_lib demo_ctx) ?p))"
    unfolding lib enc mac by (simp_all add: dec seg mseg)
  note rt = token_round_trip [OF hyps, unfolded lib mac]
  have "(604801999::nat) div 1000 < 2000 div 1000 + 7 * 24 * 60 * 60"
    and "(2000::nat) div 1000 + 7 * 24 * 60 * 60 \<le> 604802000 div 1000"
    by simp_all
  then show ?thesis
    using rt [of 604801999 "''forged''" "''not.a.signed.token''"]
      rt [of 604802000 "''forged''" "''not.a.signed.token''"]
      rt [of 2000 "''forged''" "''not.a.signed.token''"] forged len
    by simp
qed

section \<open>The Login Flow\<close>

lemma lower_trim_string: "lower_trim (JStr e) = Inr (trim (toLowerCase e))"
  by (simp add: lower_trim_def)

lemma validate_lastLogin: "validate (u\<lparr>lastLogin := x\<rparr>) = validate u"
  by (simp add: validate_def)

lemma save_lastLogin:
  "save_existing lib s (u\<lparr>lastLogin := Some t\<rparr>, [''lastLogin'']) db =
     (if validate u \<noteq> [] then Inl (ValidationError (validate u))
      else (case updateOne (user_id u) (\<lambda>d. d\<lparr>lastLogin := Some t\<rparr>) db of
              None \<Rightarrow> Inl DocumentNotFoundError
            | Some db' \<Rightarrow> Inr (u\<lparr>lastLogin := Some t\<rparr>, db')))"
  by (simp add: save_existing_def validate_lastLogin pre_save_def set_path_def)

text \<open>The login handler on a request whose email and password are non-empty strings.\<close>

lemma login_strings:
  assumes "b_email b = JStr e" and "e \<noteq> []" and "b_password b = JStr p" and "p \<noteq> []"
  shows "login c inp b db =
     (case findOne db (trim (toLowerCase e)) of
        None \<Rightarrow> ((401, ErrorMsg ''Invalid credentials''), db)
      | Some u \<Rightarrow>
          if \<not> isActive u then ((401, ErrorMsg ''Account is deactivated. Contact admin.''), db)
          else if \<not> bcrypt_compare (bcrypt_lib c) p (password u)
          then ((401, ErrorMsg ''Invalid credentials''), db)
          else if validate u \<noteq> []
          then ((500, ErrorDetail ''Login failed. Please try again.''
                   (if NODE_ENV c = Some ''development''
                    then Some (ValidationError (validate u)) else None)), db)
          else
            (case updateOne (user_id u) (\<lambda>d. d\<lparr>lastLogin := Some (clock inp)\<rparr>) db of
               None \<Rightarrow>
                 ((500, ErrorDetail ''Login failed. Please try again.''
                     (if NODE_ENV c = Some ''development''
                      then Some DocumentNotFoundError else None)), db)
             | Some db' \<Rightarrow>
                 ((200, TokenUser (generateToken c (token_clock inp) (user_id u) (role u))
                          (safeUser (u\<lparr>lastLogin := Some (clock inp)\<rparr>))), db')))"
  using assms
  by (simp add: login_def login_try_def lower_trim_string compare_js_def save_lastLogin
      split: option.splits)


text \<open>
  What holds of the failing logins when the password is a string: an unknown email and a
  wrong password on an active account both answer 401 "Invalid credentials", and a
  deactivated account answers 401 "Account is deactivated. Contact admin." before the
  password is looked at.
\<close>

lemma login_failures_strings:
  assumes "b_email b = JStr e" and "e \<noteq> []" and "truthy (b_password b)"
  shows
    "(findOne db (trim (toLowerCase e)) = None \<longrightarrow>
        login c inp b db = ((401, ErrorMsg ''Invalid credentials''), db)) \<and>
     (findOne db (trim (toLowerCase e)) = Some u \<and> isActive u \<and> b_password b = JStr p \<and>
      \<not> bcrypt_compare (bcrypt_lib c) p (password u) \<longrightarrow>
        login c inp b db = ((401, ErrorMsg ''Invalid credentials''), db)) \<and>
     (findOne db (trim (toLowerCase e)) = Some u \<and> \<not> isActive u \<longrightarrow>
        login c inp b db = ((401, ErrorMsg ''Account is deactivated. Contact admin.''), db))"
  using assms
  by (auto simp: login_def login_try_def lower_trim_string compare_js_def)

lemma demo_normalize: "trim (toLowerCase ''A@X.com'') = ''a@x.com''"
  by (simp add: trim_def toLowerCase_def lower_char_def upper_letters_def
      lower_letters_def is_space_def)

text \<open>
  C3. The two failures do not always get the identical answer. When the password of the
  request is present but not a string (a JSON number or \<open>true\<close>), a login with an
  unknown email still answers 401 "Invalid credentials", but on an existing active
  account \<open>bcrypt.compare\<close> throws on the candidate and the handler's catch block
  answers 500 "Login failed. Please try again.": the two answers tell an existing account
  from an unknown email. The store is unchanged in both cases.
\<close>

theorem login_password_not_string:
  assumes "b_email b = JStr e" and "e \<noteq> []" and "truthy (b_password b)"
    and "\<forall>p. b_password b \<noteq> JStr p"
  shows
    "(findOne db (trim (toLowerCase e)) = None \<longrightarrow>
        login c inp b db = ((401, ErrorMsg ''Invalid credentials''), db)) \<and>
     (findOne db (trim (toLowerCase e)) = Some u \<and> isActive u \<longrightarrow>
        login c inp b db =
          ((500, ErrorDetail ''Login failed. Please try again.''
                   (if NODE_ENV c = Some ''development'' then Some IllegalArguments else None)),
           db))"
proof -
  have thrown: "compare_js (bcrypt_lib c) (b_password b) d = Inl IllegalArguments" for d
    using assms(4) by (cases "b_password b") (simp_all add: compare_js_def)
  show ?thesis
    using assms(1-3) by (simp add: login_def login_try_def lower_trim_string thrown)
qed

theorem login_password_not_string_witness:
  "login demo_ctx demo_inputs
     (empty_body\<lparr>b_email := JStr ''a@x.com'', b_password := num 123456\<rparr>) [] =
     ((401, ErrorMsg ''Invalid credentials''), []) \<and>
   login demo_ctx demo_inputs
     (empty_body\<lparr>b_email := JStr ''a@x.com'', b_password := num 123456\<rparr>) [demo_student] =
     ((500, ErrorDetail ''Login failed. Please try again.'' None), [demo_student])"
proof -
  let ?b = "empty_body\<lparr>b_email := JStr ''a@x.com'', b_password := num 123456\<rparr>"
  have key: "trim (toLowerCase ''a@x.com'') = ''a@x.com''"
    by (simp add: trim_def toLowerCase_def lower_char_def upper_letters_def
      lower_letters_def is_space_def)
  have b: "b_email ?b = JStr ''a@x.com''" "''a@x.com'' \<noteq> []" "truthy (b_password ?b)"
    "\<forall>p. b_password ?b \<noteq> JStr p"
    by (simp_all add: num_simps)
  have f0: "findOne [] (trim (toLowerCase ''a@x.com'')) = None"
    by (simp add: findOne_def)
  have f1: "findOne [demo_student] (trim (toLowerCase ''a@x.com'')) = Some demo_student"
    unfolding key by (simp add: findOne_def demo_student_def)
  have active: "isActive demo_student"
    by (simp add: demo_student_def)
  have env: "NODE_ENV demo_ctx = None"
    by (simp add: demo_ctx_def)
  show ?thesis
    using login_password_not_string [OF b, where db = "[]" and u = demo_student and c = demo_ctx
        and inp = demo_inputs]
      login_password_not_string [OF b, where db = "[demo_student]" and u = demo_student
        and c = demo_ctx and inp = demo_inputs]
      f0 f1 active env
    by simp
qed

lemma updateOne_map:
  assumes "updateOne oid f db = Some db'" and "\<And>d. g (f d) = g d"
  shows "map g db' = map g db"
  using assms(1)
proof (induction db arbitrary: db')
  case Nil
  then show ?case by simp
next
  case (Cons d ds)
  then show ?case
    by (auto simp: assms(2) split: if_splits option.splits)
qed

lemma findOne_updateOne:
  assumes "updateOne oid f db = Some db'" and "\<And>d. email (f d) = email d"
    and "findOne db e = Some u"
  shows "\<exists>u'. findOne db' e = Some u' \<and> (u' = u \<or> u' = f u)"
  using assms(1,3)
proof (induction db arbitrary: db')
  case Nil
  then show ?case by simp
next
  case (Cons d ds)
  show ?case
  proof (cases "user_id d = oid")
    case True
    with Cons.prems show ?thesis
      by (auto simp: findOne_def assms(2) split: if_splits)
  next
    case False
    with Cons.prems obtain ds' where ds': "updateOne oid f ds = Some ds'" "db' = d # ds'"
      by (auto split: option.splits)
    show ?thesis
    proof (cases "email d = e")
      case True
      with Cons.prems ds' show ?thesis by (simp add: findOne_def)
    next
      case False
      with Cons.prems have "findOne ds e = Some u" by (simp add: findOne_def)
      from Cons.IH [OF ds'(1) this] False ds'(2) show ?thesis
        by (simp add: findOne_def)
    qed
  qed
qed

lemma login_ok_strings:
  assumes "fst (fst (login c inp b db)) = 200"
  shows "\<exists>e p. b_email b = JStr e \<and> e \<noteq> [] \<and> b_password b = JStr p \<and> p \<noteq> []"
proof -
  from assms have t: "truthy (b_email b)" "truthy (b_password b)"
    by (auto simp: login_def login_try_def split: if_splits)
  from assms t obtain e where e: "b_email b = JStr e"
    by (cases "b_email b") (auto simp: login_def login_try_def lower_trim_def)
  from assms t e obtain p where p: "b_password b = JStr p"
    by (cases "b_password b")
      (auto simp: login_def login_try_def lower_trim_def compare_js_def
        split: option.splits if_splits)
  from t e p show ?thesis by simp
qed

lemma login_failed_frame:
  assumes "fst (fst (login c inp b db)) \<noteq> 200"
  shows "snd (login c inp b db) = db \<and>
    (\<forall>token pub. snd (fst (login c inp b db)) \<noteq> TokenUser token pub)"
  using assms
  by (auto simp: login_def login_try_def split: sum.splits option.splits if_splits)


text \<open>
  C9. Frame property of login. A successful login changes nothing in the store but the
  \<open>lastLogin\<close> of the account: the stored documents are the old ones up to
  \<open>lastLogin\<close>, the update sets that single path, and the save does not hash again (the
  hook leaves the password alone when the path \<open>password\<close> is not modified), so the
  account is still found with the same digest and the same plaintext still verifies. A
  login that does not succeed leaves the store as it was and returns no token.
\<close>

theorem login_frame:
  "(fst (fst (login c inp b db)) = 200 \<longrightarrow>
      map (\<lambda>d. d\<lparr>lastLogin := None\<rparr>) (snd (login c inp b db)) =
        map (\<lambda>d. d\<lparr>lastLogin := None\<rparr>) db \<and>
      (\<exists>e p u u'.
         b_email b = JStr e \<and> b_password b = JStr p \<and>
         findOne db (trim (toLowerCase e)) = Some u \<and>
         updateOne (user_id u) (\<lambda>d. d\<lparr>lastLogin := Some (clock inp)\<rparr>) db =
           Some (snd (login c inp b db)) \<and>
         findOne (snd (login c inp b db)) (trim (toLowerCase e)) = Some u' \<and>
         password u' = password u \<and>
         bcrypt_compare (bcrypt_lib c) p (password u'))) \<and>
   (''password'' \<notin> set modified \<longrightarrow>
      password (fst (pre_save lib sa modified u0)) = password u0) \<and>
   (fst (fst (login c inp b db)) \<noteq> 200 \<longrightarrow>
      snd (login c inp b db) = db \<and>
      (\<forall>token pub. snd (fst (login c inp b db)) \<noteq> TokenUser token pub))"
proof -
  have hook: "password (fst (pre_save lib sa modified u0)) = password u0"
    if "''password'' \<notin> set modified"
    using that by (simp add: pre_save_def)
  have ok: "map (\<lambda>d. d\<lparr>lastLogin := None\<rparr>) (snd (login c inp b db)) =
        map (\<lambda>d. d\<lparr>lastLogin := None\<rparr>) db \<and>
      (\<exists>e p u u'.
         b_email b = JStr e \<and> b_password b = JStr p \<and>
         findOne db (trim (toLowerCase e)) = Some u \<and>
         updateOne (user_id u) (\<lambda>d. d\<lparr>lastLogin := Some (clock inp)\<rparr>) db =
           Some (snd (login c inp b db)) \<and>
         findOne (snd (login c inp b db)) (trim (toLowerCase e)) = Some u' \<and>
         password u' = password u \<and>
         bcrypt_compare (bcrypt_lib c) p (password u'))"
    if st: "fst (fst (login c inp b db)) = 200"
  proof -
    from login_ok_strings [OF st] obtain e p
      where ep: "b_email b = JStr e" "e \<noteq> []" "b_password b = JStr p" "p \<noteq> []"
      by blast
    note shape = login_strings [OF ep, of c inp db]
    from st shape obtain u where u: "findOne db (trim (toLowerCase e)) = Some u"
      by (cases "findOne db (trim (toLowerCase e))") auto
    from st shape u have act: "isActive u"
      and cmp: "bcrypt_compare (bcrypt_lib c) p (password u)"
      and val: "validate u = []"
      by (auto split: if_splits)
    from st shape u act cmp val obtain db'
      where db': "updateOne (user_id u) (\<lambda>d. d\<lparr>lastLogin := Some (clock inp)\<rparr>) db = Some db'"
      by (cases "updateOne (user_id u) (\<lambda>d. d\<lparr>lastLogin := Some (clock inp)\<rparr>) db") auto
    from shape u act cmp val db' have res: "snd (login c inp b db) = db'"
      by simp
    have same: "map (\<lambda>d. d\<lparr>lastLogin := None\<rparr>) db' = map (\<lambda>d. d\<lparr>lastLogin := None\<rparr>) db"
      using db' by (rule updateOne_map) simp
    from findOne_updateOne [OF db' _ u] obtain u'
      where u': "findOne db' (trim (toLowerCase e)) = Some u'"
        "u' = u \<or> u' = u\<lparr>lastLogin := Some (clock inp)\<rparr>"
      by auto
    from u'(2) have pw: "password u' = password u" by auto
    show ?thesis
      unfolding res using same ep u db' u'(1) pw cmp by auto
  qed
  show ?thesis
    using ok hook login_failed_frame [of c inp b db] by blast
qed


lemma demo_login:
  "login demo_ctx (demo_inputs\<lparr>clock := 5000, token_clock := 6000\<rparr>)
     (empty_body\<lparr>b_email := JStr ''A@X.com'', b_password := JStr ''secret1''\<rparr>) [demo_student] =
   ((200, TokenUser (generateToken demo_ctx 6000 ''u1'' ''student'')
            (safeUser (demo_student\<lparr>lastLogin := Some 5000\<rparr>))),
    [demo_student\<lparr>lastLogin := Some 5000\<rparr>])"
proof -
  let ?b = "empty_body\<lparr>b_email := JStr ''A@X.com'', b_password := JStr ''secret1''\<rparr>"
  have b: "b_email ?b = JStr ''A@X.com''" "''A@X.com'' \<noteq> []"
    "b_password ?b = JStr ''secret1''" "''secret1'' \<noteq> []"
    by (simp_all add: empty_body_def)
  have found: "findOne [demo_student] ''a@x.com'' = Some demo_student"
    by (simp add: findOne_def demo_student_def)
  have valid: "validate demo_student = []"
    by (simp add: validate_def demo_student_def)
  have match: "bcrypt_compare (bcrypt_lib demo_ctx) ''secret1'' (password demo_student)"
    by (simp add: demo_ctx_def demo_bcrypt_def demo_student_def)
  have fields: "isActive demo_student" "user_id demo_student = ''u1''"
    "role demo_student = ''student''"
    by (simp_all add: demo_student_def)
  show ?thesis
    unfolding login_strings [OF b] demo_normalize
    by (simp add: found valid match fields demo_inputs_def)
qed

theorem login_frame_witness:
  "map (\<lambda>d. d\<lparr>lastLogin := None\<rparr>)
     (snd (login demo_ctx (demo_inputs\<lparr>clock := 5000, token_clock := 6000\<rparr>)
        (empty_body\<lparr>b_email := JStr ''A@X.com'', b_password := JStr ''secret1''\<rparr>)
        [demo_student])) =
     map (\<lambda>d. d\<lparr>lastLogin := None\<rparr>) [demo_student] \<and>
   password (fst (pre_save demo_bcrypt ''s'' [''lastLogin''] demo_student)) =
     password demo_student \<and>
   snd (login demo_ctx demo_inputs
     (empty_body\<lparr>b_email := JStr ''A@X.com'', b_password := JStr ''secret2''\<rparr>)
     [demo_student]) = [demo_student]"
proof -
  let ?inp = "demo_inputs\<lparr>clock := 5000, token_clock := 6000\<rparr>"
  let ?b1 = "empty_body\<lparr>b_email := JStr ''A@X.com'', b_password := JStr ''secret1''\<rparr>"
  let ?b2 = "empty_body\<lparr>b_email := JStr ''A@X.com'', b_password := JStr ''secret2''\<rparr>"
  have ok: "fst (fst (login demo_ctx ?inp ?b1 [demo_student])) = 200"
    by (simp add: demo_login)
  have b2: "b_email ?b2 = JStr ''A@X.com''" "''A@X.com'' \<noteq> []"
    "b_password ?b2 = JStr ''secret2''" "''secret2'' \<noteq> []"
    by (simp_all add: empty_body_def)
  have found: "findOne [demo_student] ''a@x.com'' = Some demo_student"
    by (simp add: findOne_def demo_student_def)
  have wrong: "\<not> bcrypt_compare (bcrypt_lib demo_ctx) ''secret2'' (password demo_student)"
    by (simp add: demo_ctx_def demo_bcrypt_def demo_student_def)
  have active: "isActive demo_student"
    by (simp add: demo_student_def)
  have "login demo_ctx demo_inputs ?b2 [demo_student] =
      ((401, ErrorMsg ''Invalid credentials''), [demo_student])"
    unfolding login_strings [OF b2] demo_normalize
    using wrong by (simp add: found active)
  then have failed: "fst (fst (login demo_ctx demo_inputs ?b2 [demo_student])) \<noteq> 200"
    by simp
  have unmodified: "''password'' \<notin> set [''lastLogin'']"
    by simp
  show ?thesis
    using login_frame [where c = demo_ctx and inp = ?inp and b = ?b1 and db = "[demo_student]"
        and modified = "[''lastLogin'']" and lib = demo_bcrypt and sa = "''s''"
        and ?u0.0 = demo_student]
      login_frame [where c = demo_ctx and inp = demo_inputs and b = ?b2
        and db = "[demo_student]" and modified = "[''lastLogin'']"] ok failed unmodified
    by blast
qed

section \<open>Start-up\<close>

text \<open>
  C8. When \<open>JWT_SECRET\<close> is absent from the environment (or empty), loading the module
  exits with code 1 and no module exists; the exit has no other cause. A loaded module
  holds the non-empty secret of the environment, and that secret, never a default, is the
  key of every token the handlers sign. The handlers are functions of the loaded module
  and return responses, so the failure is not among their results.
\<close>

theorem secret_guard:
  "(env ''JWT_SECRET'' = None \<or> env ''JWT_SECRET'' = Some [] \<longrightarrow> load_auth bl jl env = Exit 1) \<and>
   (load_auth bl jl env = Exit n \<longrightarrow>
      n = 1 \<and> (env ''JWT_SECRET'' = None \<or> env ''JWT_SECRET'' = Some [])) \<and>
   (load_auth bl jl env = Loaded c \<longrightarrow>
      env ''JWT_SECRET'' = Some (JWT_SECRET c) \<and> JWT_SECRET c \<noteq> [] \<and>
      generateToken c t uid r = jwt_sign jl uid r (JWT_SECRET c) (7 * 24 * 60 * 60) t)"
  by (auto simp: load_auth_def generateToken_def split: option.splits if_splits)

theorem secret_guard_witness:
  "load_auth demo_bcrypt demo_jwt (\<lambda>k. None) = Exit 1 \<and>
   load_auth demo_bcrypt demo_jwt (\<lambda>k. if k = ''JWT_SECRET'' then Some [] else None) = Exit 1 \<and>
   JWT_SECRET demo_ctx = ''k'' \<and>
   generateToken demo_ctx 2000 ''u1'' ''student'' =
     jwt_sign demo_jwt ''u1'' ''student'' ''k'' (7 * 24 * 60 * 60) 2000"
proof -
  let ?env = "\<lambda>k. if k = ''JWT_SECRET'' then Some ''k'' else None"
  have loaded: "load_auth demo_bcrypt demo_jwt ?env = Loaded demo_ctx"
    by (simp add: load_auth_def demo_ctx_def)
  have absent: "load_auth demo_bcrypt demo_jwt (\<lambda>k. None) = Exit 1"
    using secret_guard [of "\<lambda>k. None" demo_bcrypt demo_jwt 1 demo_ctx 2000 "''u1''" "''student''"]
    by simp
  have empty: "load_auth demo_bcrypt demo_jwt
      (\<lambda>k. if k = ''JWT_SECRET'' then Some [] else None) = Exit 1"
    using secret_guard [of "\<lambda>k. if k = ''JWT_SECRET'' then Some [] else None"
        demo_bcrypt demo_jwt 1 demo_ctx 2000 "''u1''" "''student''"]
    by simp
  have present: "JWT_SECRET demo_ctx = ''k'' \<and>
      generateToken demo_ctx 2000 ''u1'' ''student'' =
        jwt_sign demo_jwt ''u1'' ''student'' ''k'' (7 * 24 * 60 * 60) 2000"
    using secret_guard [of ?env demo_bcrypt demo_jwt 1 demo_ctx 2000 "''u1''" "''student''"]
      loaded
    by simp
  show ?thesis
    using absent empty present by blast
qed

section \<open>The Registration Flow\<close>

lemma lower_char_cases:
  "lower_char c = c \<or> c \<in> set upper_letters \<and> lower_char c \<in> set lower_letters"
proof (cases "map_of (zip upper_letters lower_letters) c")
  case None
  then show ?thesis
    by (simp add: lower_char_def)
next
  case (Some d)
  then have "(c, d) \<in> set (zip upper_letters lower_letters)"
    by (rule map_of_SomeD)
  then have "c \<in> set upper_letters" and "d \<in> set lower_letters"
    by (auto dest: set_zip_leftD set_zip_rightD)
  with Some show ?thesis
    by (simp add: lower_char_def)
qed

lemma lower_letters_fixed:
  assumes "c \<in> set lower_letters"
  shows "lower_char c = c"
proof -
  from assms have "c \<notin> set upper_letters"
    unfolding lower_letters_def upper_letters_def by auto
  then have "map_of (zip upper_letters lower_letters) c = None"
    by (simp add: map_of_zip_is_None upper_letters_def lower_letters_def)
  then show ?thesis
    by (simp add: lower_char_def)
qed

lemma letters_no_space:
  assumes "c \<in> set upper_letters \<or> c \<in> set lower_letters"
  shows "\<not> is_space c"
  using assms unfolding lower_letters_def upper_letters_def is_space_def by auto

lemma lower_char_idem: "lower_char (lower_char c) = lower_char c"
  using lower_char_cases [of c] lower_letters_fixed [of "lower_char c"] by auto

lemma is_space_lower: "is_space (lower_char c) = is_space c"
  using lower_char_cases [of c] letters_no_space [of c] letters_no_space [of "lower_char c"]
  by auto

lemma toLowerCase_trim: "toLowerCase (trim s) = trim (toLowerCase s)"
proof -
  have "is_space \<circ> lower_char = is_space"
    by (rule ext) (simp add: is_space_lower)
  then show ?thesis
    by (simp add: toLowerCase_def trim_def rev_map dropWhile_map)
qed

lemma toLowerCase_idem: "toLowerCase (toLowerCase s) = toLowerCase s"
  by (simp add: toLowerCase_def lower_char_idem)

lemma toLowerCase_normalized: "toLowerCase (trim (toLowerCase s)) = trim (toLowerCase s)"
  by (simp only: toLowerCase_trim toLowerCase_idem)

lemma blank_string: "blank (JStr n) = Inr (trim n = [])"
  by (simp add: blank_def trim_def)

lemma pre_save_keeps:
  "user_id (fst (pre_save lib s m u)) = user_id u"
  "email (fst (pre_save lib s m u)) = email u"
  "role (fst (pre_save lib s m u)) = role u"
  "adminLevel (fst (pre_save lib s m u)) = adminLevel u"
  "isActive (fst (pre_save lib s m u)) = isActive u"
  "assignedStudents (fst (pre_save lib s m u)) = assignedStudents u"
  "rollNumber (fst (pre_save lib s m u)) = rollNumber u"
  by (simp_all add: pre_save_def)

lemma save_new_cases:
  "save_new lib s (u0, m, ce) db =
     (if ce @ validate u0 \<noteq> [] then Inl (ValidationError (ce @ validate u0))
      else if list_ex (\<lambda>d. user_id d = user_id u0 \<or> email d = email u0) db
      then Inl (MongoServerError 11000)
      else Inr (fst (pre_save lib s m u0), db @ [fst (pre_save lib s m u0)]))"
proof -
  obtain u' m' where p: "pre_save lib s m u0 = (u', m')"
    by (cases "pre_save lib s m u0")
  then have "user_id u' = user_id u0" "email u' = email u0"
    using pre_save_keeps(1,2) [of lib s m u0] by simp_all
  with p show ?thesis
    by (simp add: save_new_def)
qed

text \<open>The registration handler on a request whose name and email are non-blank strings.\<close>

lemma register_strings:
  assumes "b_name b = JStr n" and "trim n \<noteq> []" and "b_email b = JStr e" and "trim e \<noteq> []"
  shows "register_try c inp b db_check db_save =
     (if too_short (b_password b)
      then Inr ((400, ErrorMsg ''Password must be at least 6 characters''), db_save)
      else if b_role b \<notin> set [JStr ''student'', JStr ''proctor'', JStr ''admin'']
      then Inr ((400, ErrorMsg ''Invalid role''), db_save)
      else
        (case validate_role b of
           Some msg \<Rightarrow> Inr ((400, ErrorMsg msg), db_save)
         | None \<Rightarrow>
        (case findOne db_check (trim (toLowerCase e)) of
           Some existing \<Rightarrow> Inr ((400, ErrorMsg ''Email already registered''), db_save)
         | None \<Rightarrow>
        (case build_userData b of
           Inl err \<Rightarrow> Inl err
         | Inr ud \<Rightarrow>
        (case save_new (bcrypt_lib c) (salt inp) (new_User (new_id inp) (clock inp) ud) db_save of
           Inl err \<Rightarrow> Inl err
         | Inr (u, db') \<Rightarrow>
             Inr ((201, TokenUser (generateToken c (token_clock inp) (user_id u) (role u))
                                  (safeUser u)),
                  db'))))))"
  using assms
  by (cases "validate_role b")
    (simp_all add: register_try_def validate_base_def blank_string lower_trim_string)


lemma build_userData_email:
  assumes "build_userData b = Inr ud" and "b_email b = JStr e"
  shows "ud_email ud = trim (toLowerCase e)"
  using assms
  by (auto simp: build_userData_def lower_trim_string Let_def split: sum.splits if_splits)

lemma new_User_keys:
  "email (fst (new_User oid t ud)) = toLowerCase (ud_email ud)"
  "user_id (fst (new_User oid t ud)) = oid"
  by (simp_all add: new_User_def)

text \<open>
  When the handler reaches the insert and the store then holds the normalized email, the
  insert fails with the duplicate-key error and the handler answers as its pre-check does.
\<close>

lemma register_race:
  assumes n: "b_name b = JStr n" "trim n \<noteq> []" and e: "b_email b = JStr e" "trim e \<noteq> []"
    and ok: "fst (fst (register c inp b db)) = 201"
    and dup: "\<exists>d \<in> set db'. email d = trim (toLowerCase e)"
  shows "register_at c inp b db db' = ((400, ErrorMsg ''Email already registered''), db')"
proof -
  note shape = register_strings [OF n e, of c inp]
  from ok have tr: "\<exists>r. register_try c inp b db db = Inr r \<and> fst (fst r) = 201"
    by (auto simp: register_def register_at_def register_catch_def
        split: sum.splits exn.splits if_splits)
  from tr shape [of db db] have pw: "\<not> too_short (b_password b)"
    and rl: "\<not> b_role b \<notin> set [JStr ''student'', JStr ''proctor'', JStr ''admin'']"
    by (auto split: if_splits)
  from tr shape [of db db] pw rl have vr: "validate_role b = None"
    by (cases "validate_role b") auto
  from tr shape [of db db] pw rl vr have fo: "findOne db (trim (toLowerCase e)) = None"
    by (cases "findOne db (trim (toLowerCase e))") auto
  from tr shape [of db db] pw rl vr fo obtain ud where ud: "build_userData b = Inr ud"
    by (cases "build_userData b") auto
  obtain u0 m ce where doc: "new_User (new_id inp) (clock inp) ud = (u0, m, ce)"
    by (cases "new_User (new_id inp) (clock inp) ud")
  from tr shape [of db db] pw rl vr fo ud doc have valid: "ce @ validate u0 = []"
    by (auto simp: save_new_cases split: if_splits)
  have "email u0 = trim (toLowerCase e)"
    using new_User_keys(1) [of "new_id inp" "clock inp" ud] doc
      build_userData_email [OF ud e(1)]
    by (simp add: toLowerCase_normalized)
  with dup have "list_ex (\<lambda>d. user_id d = user_id u0 \<or> email d = email u0) db'"
    by (auto simp: list_ex_iff)
  with valid have "save_new (bcrypt_lib c) (salt inp) (u0, m, ce) db' = Inl (MongoServerError 11000)"
    by (simp add: save_new_cases)
  with shape [of db db'] pw rl vr fo ud doc show ?thesis
    by (simp add: register_at_def register_catch_def)
qed

text \<open>
  What the registration gate rejects when name, email and password are strings: a name
  that is missing, empty or blank; then, for a request with a name and an email, a
  password that is missing or a string shorter than 6; then a role outside student,
  proctor and admin; a student request with its other fields but no batch; and an email
  whose normalized form is already stored ("Email already registered"). When the handler
  passes its own check and the email is in the store by the time of the insert, the
  duplicate-key error 11000 of the store gets that same answer, which is what the
  handler's catch block makes of error code 11000.
\<close>

lemma registration_gate_strings:
  "((\<not> truthy (b_name b) \<or> (\<exists>n. b_name b = JStr n \<and> trim n = [])) \<longrightarrow>
      register c inp b db = ((400, ErrorMsg ''Name is required''), db)) \<and>
   (b_name b = JStr n \<and> trim n \<noteq> [] \<and> b_email b = JStr e \<and> trim e \<noteq> [] \<longrightarrow>
      ((\<not> truthy (b_password b) \<or> (\<exists>p. b_password b = JStr p \<and> length p < 6)) \<longrightarrow>
         register c inp b db =
           ((400, ErrorMsg ''Password must be at least 6 characters''), db)) \<and>
      (b_password b = JStr p \<and> 6 \<le> length p \<longrightarrow>
         (b_role b \<notin> {JStr ''student'', JStr ''proctor'', JStr ''admin''} \<longrightarrow>
            register c inp b db = ((400, ErrorMsg ''Invalid role''), db)) \<and>
         (b_role b = JStr ''student'' \<and> truthy (b_rollNumber b) \<and> truthy (b_department b) \<and>
          truthy (b_semester b) \<and> \<not> truthy (b_batch b) \<longrightarrow>
            register c inp b db = ((400, ErrorMsg ''Batch is required''), db)) \<and>
         (b_role b \<in> {JStr ''student'', JStr ''proctor'', JStr ''admin''} \<and>
          validate_role b = None \<and> (\<exists>d \<in> set db. email d = trim (toLowerCase e)) \<longrightarrow>
            register c inp b db = ((400, ErrorMsg ''Email already registered''), db)) \<and>
         (fst (fst (register c inp b db)) = 201 \<and>
          (\<exists>d \<in> set db'. email d = trim (toLowerCase e)) \<longrightarrow>
            register_at c inp b db db' =
              ((400, ErrorMsg ''Email already registered''), db')))) \<and>
   register_catch c (MongoServerError 11000) = (400, ErrorMsg ''Email already registered'')"
proof -
  have name: "register c inp b db = ((400, ErrorMsg ''Name is required''), db)"
    if "\<not> truthy (b_name b) \<or> (\<exists>n. b_name b = JStr n \<and> trim n = [])"
    using that
    by (auto simp: register_def register_at_def register_try_def validate_base_def blank_def)
  have handler: "register_catch c (MongoServerError 11000) =
      (400, ErrorMsg ''Email already registered'')"
    by (simp add: register_catch_def)
  have rest: "((\<not> truthy (b_password b) \<or> (\<exists>p. b_password b = JStr p \<and> length p < 6)) \<longrightarrow>
         register c inp b db =
           ((400, ErrorMsg ''Password must be at least 6 characters''), db)) \<and>
      (b_password b = JStr p \<and> 6 \<le> length p \<longrightarrow>
         (b_role b \<notin> {JStr ''student'', JStr ''proctor'', JStr ''admin''} \<longrightarrow>
            register c inp b db = ((400, ErrorMsg ''Invalid role''), db)) \<and>
         (b_role b = JStr ''student'' \<and> truthy (b_rollNumber b) \<and> truthy (b_department b) \<and>
          truthy (b_semester b) \<and> \<not> truthy (b_batch b) \<longrightarrow>
            register c inp b db = ((400, ErrorMsg ''Batch is required''), db)) \<and>
         (b_role b \<in> {JStr ''student'', JStr ''proctor'', JStr ''admin''} \<and>
          validate_role b = None \<and> (\<exists>d \<in> set db. email d = trim (toLowerCase e)) \<longrightarrow>
            register c inp b db = ((400, ErrorMsg ''Email already registered''), db)) \<and>
         (fst (fst (register c inp b db)) = 201 \<and>
          (\<exists>d \<in> set db'. email d = trim (toLowerCase e)) \<longrightarrow>
            register_at c inp b db db' =
              ((400, ErrorMsg ''Email already registered''), db')))"
    if ne: "b_name b = JStr n" "trim n \<noteq> []" "b_email b = JStr e" "trim e \<noteq> []"
  proof -
    note shape = register_strings [OF ne, of c inp db db]
    have short: "register c inp b db =
        ((400, ErrorMsg ''Password must be at least 6 characters''), db)"
      if "\<not> truthy (b_password b) \<or> (\<exists>p. b_password b = JStr p \<and> length p < 6)"
      using that shape by (auto simp: register_def register_at_def too_short_def)
    have long: "\<not> too_short (b_password b)" if "b_password b = JStr p" "6 \<le> length p"
      using that by (auto simp: too_short_def)
    have role: "register c inp b db = ((400, ErrorMsg ''Invalid role''), db)"
      if "b_password b = JStr p" "6 \<le> length p"
        "b_role b \<notin> {JStr ''student'', JStr ''proctor'', JStr ''admin''}"
      using that(3) long [OF that(1,2)] shape by (simp add: register_def register_at_def)
    have batch: "register c inp b db = ((400, ErrorMsg ''Batch is required''), db)"
      if "b_password b = JStr p" "6 \<le> length p" "b_role b = JStr ''student''"
        "truthy (b_rollNumber b)" "truthy (b_department b)" "truthy (b_semester b)"
        "\<not> truthy (b_batch b)"
    proof -
      from that have "validate_role b = Some ''Batch is required''"
        by (simp add: validate_role_def)
      with that(3) long [OF that(1,2)] shape show ?thesis
        by (simp add: register_def register_at_def)
    qed
    have dup: "register c inp b db = ((400, ErrorMsg ''Email already registered''), db)"
      if "b_password b = JStr p" "6 \<le> length p"
        "b_role b \<in> {JStr ''student'', JStr ''proctor'', JStr ''admin''}"
        "validate_role b = None" "\<exists>d \<in> set db. email d = trim (toLowerCase e)"
    proof -
      from that(5) obtain u where "findOne db (trim (toLowerCase e)) = Some u"
        by (cases "findOne db (trim (toLowerCase e))") (auto simp: findOne_def find_None_iff)
      with that(3,4) long [OF that(1,2)] shape show ?thesis
        by (simp add: register_def register_at_def)
    qed
    show ?thesis
      using short role batch dup register_race [OF ne, of c inp db db'] by blast
  qed
  show ?thesis
    using name handler rest by blast
qed


lemma demo_body_fields:
  "b_name demo_body = JStr ''A''" "b_email demo_body = JStr ''a@x.com''"
  "b_password demo_body = JStr ''secret1''" "b_role demo_body = JStr ''student''"
  "b_rollNumber demo_body = JStr ''r1''" "b_department demo_body = JStr ''CSE''"
  "b_semester demo_body = num 3" "b_batch demo_body = JStr ''2024''"
  "b_proctorId demo_body = JUndefined" "b_adminLevel demo_body = JUndefined"
  by (simp_all add: demo_body_def empty_body_def)

lemma demo_trims:
  "trim ''A'' = ''A''" "trim ''a@x.com'' = ''a@x.com''" "trim ''2024'' = ''2024''"
  "trim ''r1'' = ''r1''" "toLowerCase ''a@x.com'' = ''a@x.com''" "toUpperCase ''r1'' = ''R1''"
  by (simp_all add: trim_def is_space_def toLowerCase_def toUpperCase_def lower_char_def
      upper_char_def upper_letters_def lower_letters_def)

lemma demo_parseInt: "parseInt (num 3) = Number 3"
  by (simp add: num_def Abs_safe_int_inverse parseInt_def parseInt_str_def show_int_def digit_char_def is_space_def
      parse_unsigned_def startsWith_def parse_digits_def is_digit_def digit_val_def
      digits_val_def)

lemma demo_userData:
  "build_userData demo_body =
     Inr \<lparr>ud_name = ''A'', ud_email = ''a@x.com'', ud_password = JStr ''secret1'',
          ud_role = JStr ''student'', ud_rollNumber = Some ''R1'',
          ud_department = JStr ''CSE'', ud_semester = Some (Number 3),
          ud_batch = Some ''2024'', ud_proctorId = None, ud_adminLevel = None\<rparr>"
  by (simp add: build_userData_def demo_body_fields lower_trim_def trim_upper_def demo_trims
      demo_parseInt)

text \<open>The registration of the scenario, for any libraries, clocks and random values.\<close>

lemma register_scenario:
  assumes "\<forall>d \<in> set db. email d \<noteq> ''a@x.com'' \<and> user_id d \<noteq> new_id inp"
  shows "register c inp demo_body db =
     ((201, TokenUser (generateToken c (token_clock inp) (new_id inp) ''student'')
              (safeUser (demo_student
                 \<lparr>user_id := new_id inp,
                  password := bcrypt_hash (bcrypt_lib c) ''secret1'' (salt inp),
                  createdAt := clock inp\<rparr>))),
      db @ [demo_student
              \<lparr>user_id := new_id inp,
               password := bcrypt_hash (bcrypt_lib c) ''secret1'' (salt inp),
               createdAt := clock inp\<rparr>])"
proof -
  let ?ud = "\<lparr>ud_name = ''A'', ud_email = ''a@x.com'', ud_password = JStr ''secret1'',
          ud_role = JStr ''student'', ud_rollNumber = Some ''R1'',
          ud_department = JStr ''CSE'', ud_semester = Some (Number 3),
          ud_batch = Some ''2024'', ud_proctorId = None, ud_adminLevel = None\<rparr>"
  let ?u0 = "demo_student\<lparr>user_id := new_id inp, password := ''secret1'', createdAt := clock inp\<rparr>"
  let ?m = "[''name'', ''email'', ''password'', ''role'', ''rollNumber'', ''department'',
    ''semester'', ''batch'']"
  have ne: "b_name demo_body = JStr ''A''" "trim ''A'' \<noteq> []"
    "b_email demo_body = JStr ''a@x.com''" "trim ''a@x.com'' \<noteq> []"
    by (simp_all add: demo_body_fields demo_trims)
  have pw: "\<not> too_short (b_password demo_body)"
    by (simp add: demo_body_fields too_short_def)
  have vr: "validate_role demo_body = None"
    by (simp add: validate_role_def demo_body_fields num_simps)
  have fo: "findOne db ''a@x.com'' = None"
    using assms by (simp add: findOne_def find_None_iff)
  have doc: "new_User (new_id inp) (clock inp) ?ud = (?u0, ?m, [])"
    by (simp add: new_User_def demo_student_def demo_trims or_empty_def)
  have valid: "validate ?u0 = []"
    by (simp add: validate_def demo_student_def)
  have fresh: "\<not> list_ex (\<lambda>d. user_id d = user_id ?u0 \<or> email d = email ?u0) db"
    using assms by (auto simp: list_ex_iff demo_student_def)
  have hook: "fst (pre_save (bcrypt_lib c) (salt inp) ?m ?u0) =
      demo_student\<lparr>user_id := new_id inp,
        password := bcrypt_hash (bcrypt_lib c) ''secret1'' (salt inp), createdAt := clock inp\<rparr>"
    by (simp add: pre_save_def demo_student_def)
  have saved: "save_new (bcrypt_lib c) (salt inp) (?u0, ?m, []) db =
      Inr (fst (pre_save (bcrypt_lib c) (salt inp) ?m ?u0),
           db @ [fst (pre_save (bcrypt_lib c) (salt inp) ?m ?u0)])"
    using valid fresh by (simp only: save_new_cases append_Nil) simp
  have fields: "user_id (demo_student\<lparr>user_id := new_id inp,
        password := bcrypt_hash (bcrypt_lib c) ''secret1'' (salt inp), createdAt := clock inp\<rparr>) =
      new_id inp"
    "role (demo_student\<lparr>user_id := new_id inp,
        password := bcrypt_hash (bcrypt_lib c) ''secret1'' (salt inp), createdAt := clock inp\<rparr>) =
      ''student''"
    by (simp_all add: demo_student_def)
  show ?thesis
    unfolding register_def register_at_def register_strings [OF ne]
    using pw vr
    by (simp add: demo_body_fields demo_trims fo demo_userData doc saved hook fields)
qed


text \<open>
  C5. The registration handler does not reject every password shorter than 6. A password sent
  as the JSON number 12345 has no \<open>length\<close>, so \<open>password.length < 6\<close> is false and
  the check at line 57 lets it through; the schema casts it to the string \<open>12345\<close>,
  and the request, otherwise the one of the scenario, is answered 201 and stored with the
  digest of that 5-character password (the example \<open>bcrypt\<close> writes the salt followed
  by the password).
\<close>

theorem register_number_password:
  "register demo_ctx demo_inputs (demo_body\<lparr>b_password := num 12345\<rparr>) [] =
     ((201, TokenUser (generateToken demo_ctx 2000 ''u1'' ''student'')
              (safeUser (demo_student\<lparr>password := ''$2a$10$12345''\<rparr>))),
      [demo_student\<lparr>password := ''$2a$10$12345''\<rparr>])"
proof -
  let ?b = "demo_body\<lparr>b_password := num 12345\<rparr>"
  let ?ud = "\<lparr>ud_name = ''A'', ud_email = ''a@x.com'', ud_password = num 12345,
          ud_role = JStr ''student'', ud_rollNumber = Some ''R1'',
          ud_department = JStr ''CSE'', ud_semester = Some (Number 3),
          ud_batch = Some ''2024'', ud_proctorId = None, ud_adminLevel = None\<rparr>"
  let ?u0 = "demo_student\<lparr>password := ''12345''\<rparr>"
  let ?m = "[''name'', ''email'', ''password'', ''role'', ''rollNumber'', ''department'',
    ''semester'', ''batch'']"
  have f: "b_name ?b = JStr ''A''" "b_email ?b = JStr ''a@x.com''"
    "b_password ?b = num 12345" "b_role ?b = JStr ''student''"
    "b_rollNumber ?b = JStr ''r1''" "b_department ?b = JStr ''CSE''"
    "b_semester ?b = num 3" "b_batch ?b = JStr ''2024''"
    by (simp_all add: demo_body_fields)
  have ne: "b_name ?b = JStr ''A''" "trim ''A'' \<noteq> []"
    "b_email ?b = JStr ''a@x.com''" "trim ''a@x.com'' \<noteq> []"
    by (simp_all add: f demo_trims)
  have pw: "\<not> too_short (b_password ?b)"
    by (simp add: f too_short_def num_def Abs_safe_int_inverse)
  have vr: "validate_role ?b = None"
    by (simp add: validate_role_def f num_simps)
  have cast: "cast_string (num 12345) = Some ''12345''"
    by (simp add: num_simps show_int_def digit_char_def)
  have ud: "build_userData ?b = Inr ?ud"
    by (simp add: build_userData_def f lower_trim_def trim_upper_def demo_trims demo_parseInt)
  have doc: "new_User (new_id demo_inputs) (clock demo_inputs) ?ud = (?u0, ?m, [])"
    by (simp add: new_User_def demo_student_def demo_inputs_def demo_trims or_empty_def cast)
  have valid: "validate ?u0 = []"
    by (simp add: validate_def demo_student_def)
  have hook: "fst (pre_save (bcrypt_lib demo_ctx) (salt demo_inputs) ?m ?u0) =
      demo_student\<lparr>password := ''$2a$10$12345''\<rparr>"
    by (simp add: pre_save_def demo_student_def demo_ctx_def demo_bcrypt_def demo_inputs_def)
  have saved: "save_new (bcrypt_lib demo_ctx) (salt demo_inputs) (?u0, ?m, []) [] =
      Inr (fst (pre_save (bcrypt_lib demo_ctx) (salt demo_inputs) ?m ?u0),
           [fst (pre_save (bcrypt_lib demo_ctx) (salt demo_inputs) ?m ?u0)])"
    using valid by (simp only: save_new_cases append_Nil) simp
  have fields: "user_id (demo_student\<lparr>password := ''$2a$10$12345''\<rparr>) = ''u1''"
    "role (demo_student\<lparr>password := ''$2a$10$12345''\<rparr>) = ''student''"
    "token_clock demo_inputs = 2000"
    by (simp_all add: demo_student_def demo_inputs_def)
  show ?thesis
    unfolding register_def register_at_def register_strings [OF ne]
    using pw vr
    by (simp add: f demo_trims findOne_def ud doc saved hook fields)
qed

section \<open>The end-to-end scenario\<close>





section \<open>What a successful registration stores and returns\<close>

lemma validate_base_ok:
  assumes "validate_base b = Inr None"
  shows "b_role b \<in> set [JStr ''student'', JStr ''proctor'', JStr ''admin'']"
  using assms
  by (auto simp: validate_base_def split: sum.splits bool.splits if_splits)

lemma build_userData_role:
  assumes "build_userData b = Inr ud"
  shows "ud_role ud = b_role b"
    and "b_role b = JStr ''admin'' \<Longrightarrow> ud_adminLevel ud \<noteq> None"
  using assms
  by (auto simp: build_userData_def Let_def split: sum.splits if_splits)

lemma new_User_defaults:
  assumes "new_User oid t ud = (u0, m, ce)"
  shows "isActive u0" and "assignedStudents u0 = []"
    and "permissions u0 = default_permissions"
    and "role u0 = or_empty (cast_string (ud_role ud))"
    and "user_id u0 = oid"
    and "ud_adminLevel ud \<noteq> None \<Longrightarrow> ''adminLevel'' \<in> set m"
  using assms by (auto simp: new_User_def)

lemma register_ok:
  assumes "fst (fst (register c inp b db)) = 201"
  obtains ud u0 m where "build_userData b = Inr ud"
    and "new_User (new_id inp) (clock inp) ud = (u0, m, [])"
    and "validate u0 = []"
    and "b_role b \<in> set [JStr ''student'', JStr ''proctor'', JStr ''admin'']"
    and "register c inp b db =
      ((201, TokenUser (generateToken c (token_clock inp) (user_id u0) (role u0))
               (safeUser (fst (pre_save (bcrypt_lib c) (salt inp) m u0)))),
       db @ [fst (pre_save (bcrypt_lib c) (salt inp) m u0)])"
proof -
  from assms obtain r where r: "register_try c inp b db db = Inr r" "fst (fst r) = 201"
    by (auto simp: register_def register_at_def register_catch_def
        split: sum.splits exn.splits if_splits)
  from r have vb: "validate_base b = Inr None"
    by (auto simp: register_try_def split: sum.splits option.splits)
  from r vb have vr: "validate_role b = None"
    by (auto simp: register_try_def split: sum.splits option.splits)
  from r vb vr obtain em where em: "lower_trim (b_email b) = Inr em"
    by (auto simp: register_try_def split: sum.splits option.splits)
  from r vb vr em have fo: "findOne db em = None"
    by (auto simp: register_try_def split: sum.splits option.splits)
  from r vb vr em fo obtain ud where ud: "build_userData b = Inr ud"
    by (auto simp: register_try_def split: sum.splits option.splits)
  obtain u0 m ce where doc: "new_User (new_id inp) (clock inp) ud = (u0, m, ce)"
    by (cases "new_User (new_id inp) (clock inp) ud")
  from r vb vr em fo ud doc have sv: "ce @ validate u0 = []"
    and res: "r = ((201, TokenUser (generateToken c (token_clock inp) (user_id u0) (role u0))
               (safeUser (fst (pre_save (bcrypt_lib c) (salt inp) m u0)))),
       db @ [fst (pre_save (bcrypt_lib c) (salt inp) m u0)])"
    by (auto simp: register_try_def save_new_cases pre_save_keeps split: if_splits)
  from r(1) res have "register c inp b db =
      ((201, TokenUser (generateToken c (token_clock inp) (user_id u0) (role u0))
               (safeUser (fst (pre_save (bcrypt_lib c) (salt inp) m u0)))),
       db @ [fst (pre_save (bcrypt_lib c) (salt inp) m u0)])"
    by (simp add: register_def register_at_def)
  with that [OF ud _ _ validate_base_ok [OF vb]] doc sv show thesis
    by simp
qed


lemma demo_register_admin:
  assumes "lvl \<in> set [''super'', ''department'', ''limited'']"
  shows "register demo_ctx demo_inputs (demo_admin_body\<lparr>b_adminLevel := JStr lvl\<rparr>) [] =
     ((201, TokenUser (generateToken demo_ctx 2000 ''u1'' ''admin'')
              (safeUser (demo_admin
                 \<lparr>user_id := ''u1'', password := ''$2a$10$secret2'', adminLevel := lvl,
                  permissions := level_permissions lvl, createdAt := 1000\<rparr>))),
      [demo_admin
         \<lparr>user_id := ''u1'', password := ''$2a$10$secret2'', adminLevel := lvl,
          permissions := level_permissions lvl, createdAt := 1000\<rparr>])"
proof -
  let ?b = "demo_admin_body\<lparr>b_adminLevel := JStr lvl\<rparr>"
  let ?ud = "\<lparr>ud_name = ''B'', ud_email = ''b@x.com'', ud_password = JStr ''secret2'',
          ud_role = JStr ''admin'', ud_rollNumber = None,
          ud_department = JStr ''CSE'', ud_semester = None,
          ud_batch = None, ud_proctorId = None, ud_adminLevel = Some (JStr lvl)\<rparr>"
  let ?u0 = "demo_admin\<lparr>user_id := ''u1'', adminLevel := lvl, createdAt := 1000\<rparr>"
  let ?m = "[''name'', ''email'', ''password'', ''role'', ''department'', ''adminLevel'']"
  from assms have lvl: "lvl \<noteq> []"
    by auto
  have f: "b_name ?b = JStr ''B''" "b_email ?b = JStr ''b@x.com''"
    "b_password ?b = JStr ''secret2''" "b_role ?b = JStr ''admin''"
    "b_department ?b = JStr ''CSE''" "b_adminLevel ?b = JStr lvl"
    by (simp_all add: demo_admin_body_def empty_body_def)
  have t: "trim ''B'' = ''B''" "trim ''b@x.com'' = ''b@x.com''"
    "toLowerCase ''b@x.com'' = ''b@x.com''"
    by (simp_all add: trim_def is_space_def toLowerCase_def lower_char_def upper_letters_def
        lower_letters_def)
  have ne: "b_name ?b = JStr ''B''" "trim ''B'' \<noteq> []"
    "b_email ?b = JStr ''b@x.com''" "trim ''b@x.com'' \<noteq> []"
    by (simp_all add: f t)
  have pw: "\<not> too_short (b_password ?b)"
    by (simp add: f too_short_def)
  have vr: "validate_role ?b = None"
    by (simp add: validate_role_def f)
  have ud: "build_userData ?b = Inr ?ud"
    using lvl by (simp add: build_userData_def f lower_trim_def t)
  have doc: "new_User (new_id demo_inputs) (clock demo_inputs) ?ud = (?u0, ?m, [])"
    by (simp add: new_User_def demo_admin_def demo_inputs_def t or_empty_def)
  have valid: "validate ?u0 = []"
    using assms by (simp add: validate_def demo_admin_def)
  have hook: "fst (pre_save (bcrypt_lib demo_ctx) (salt demo_inputs) ?m ?u0) =
      demo_admin\<lparr>user_id := ''u1'', password := ''$2a$10$secret2'', adminLevel := lvl,
        permissions := level_permissions lvl, createdAt := 1000\<rparr>"
    by (simp add: pre_save_def demo_admin_def demo_ctx_def demo_bcrypt_def demo_inputs_def)
  have saved: "save_new (bcrypt_lib demo_ctx) (salt demo_inputs) (?u0, ?m, []) [] =
      Inr (fst (pre_save (bcrypt_lib demo_ctx) (salt demo_inputs) ?m ?u0),
           [fst (pre_save (bcrypt_lib demo_ctx) (salt demo_inputs) ?m ?u0)])"
    using valid by (simp only: save_new_cases append_Nil) simp
  have fields: "user_id (demo_admin\<lparr>user_id := ''u1'', password := ''$2a$10$secret2'',
        adminLevel := lvl, permissions := level_permissions lvl,
        createdAt := 1000\<rparr>) = ''u1''"
    "role (demo_admin\<lparr>user_id := ''u1'', password := ''$2a$10$secret2'',
        adminLevel := lvl, permissions := level_permissions lvl,
        createdAt := 1000\<rparr>) = ''admin''"
    "token_clock demo_inputs = 2000"
    by (simp_all add: demo_admin_def demo_inputs_def)
  show ?thesis
    unfolding register_def register_at_def register_strings [OF ne]
    using pw vr
    by (simp add: f t findOne_def ud doc saved hook fields)
qed

lemma digit_char_mem: "d < 10 \<Longrightarrow> digit_char d \<in> set ''0123456789''"
  unfolding digit_char_def by (rule nth_mem) simp

lemma digits_in:
  assumes "\<And>d. d < 10 \<Longrightarrow> digit_char d \<in> A"
  shows "set (digits n) \<subseteq> A"
proof (induction n rule: digits.induct)
  case (1 n)
  show ?case
  proof (cases "n < 10")
    case True
    then have "digits n = [digit_char n]"
      by (subst digits.simps) (simp only: if_True)
    with assms [OF True] show ?thesis
      by (simp del: digits.simps)
  next
    case False
    then have eq: "digits n = digits (n div 10) @ [digit_char (n mod 10)]"
      by (subst digits.simps) (simp only: if_False)
    have "digit_char (n mod 10) \<in> A"
      by (rule assms) simp
    with "1.IH" [OF False] show ?thesis
      by (simp add: eq del: digits.simps)
  qed
qed

lemma digits_chars: "set (digits n) \<subseteq> set ''0123456789''"
  by (rule digits_in) (rule digit_char_mem)

text \<open>The text of a number is no \<open>adminLevel\<close> of the schema.\<close>

lemma show_int_no_level: "show_int i \<notin> set [''super'', ''department'', ''limited'']"
proof -
  have e: "CHR ''e'' \<notin> set ''0123456789''"
    by simp
  have "CHR ''e'' \<notin> set (digits k)" for k
    using digits_chars [of k] e by blast
  then have "CHR ''e'' \<notin> set (show_int i)"
    unfolding show_int_def by (simp del: digits.simps)
  then show ?thesis
    by auto
qed

lemma build_userData_adminLevel:
  assumes "build_userData b = Inr ud" and "b_role b = JStr ''admin''"
  shows "ud_adminLevel ud =
    Some (if truthy (b_adminLevel b) then b_adminLevel b else JStr ''limited'')"
  using assms
  by (auto simp: build_userData_def Let_def split: sum.splits if_splits)

lemma new_User_adminLevel:
  assumes "new_User oid t ud = (u0, m, ce)" and "ud_adminLevel ud = Some v"
  shows "adminLevel u0 = (case cast_string v of None \<Rightarrow> ''limited'' | Some l \<Rightarrow> l)"
  using assms by (auto simp: new_User_def)

lemma ignored_selectors:
  "b_name (b\<lparr>b_permissions := x, b_isActive := y, b_assignedStudents := z\<rparr>) = b_name b"
  "b_email (b\<lparr>b_permissions := x, b_isActive := y, b_assignedStudents := z\<rparr>) = b_email b"
  "b_password (b\<lparr>b_permissions := x, b_isActive := y, b_assignedStudents := z\<rparr>) =
     b_password b"
  "b_role (b\<lparr>b_permissions := x, b_isActive := y, b_assignedStudents := z\<rparr>) = b_role b"
  "b_rollNumber (b\<lparr>b_permissions := x, b_isActive := y, b_assignedStudents := z\<rparr>) =
     b_rollNumber b"
  "b_department (b\<lparr>b_permissions := x, b_isActive := y, b_assignedStudents := z\<rparr>) =
     b_department b"
  "b_semester (b\<lparr>b_permissions := x, b_isActive := y, b_assignedStudents := z\<rparr>) =
     b_semester b"
  "b_batch (b\<lparr>b_permissions := x, b_isActive := y, b_assignedStudents := z\<rparr>) = b_batch b"
  "b_proctorId (b\<lparr>b_permissions := x, b_isActive := y, b_assignedStudents := z\<rparr>) =
     b_proctorId b"
  "b_adminLevel (b\<lparr>b_permissions := x, b_isActive := y, b_assignedStudents := z\<rparr>) =
     b_adminLevel b"
  by simp_all

lemma ignored_fields:
  "validate_base (b\<lparr>b_permissions := x, b_isActive := y, b_assignedStudents := z\<rparr>) =
     validate_base b"
  "validate_role (b\<lparr>b_permissions := x, b_isActive := y, b_assignedStudents := z\<rparr>) =
     validate_role b"
  "build_userData (b\<lparr>b_permissions := x, b_isActive := y, b_assignedStudents := z\<rparr>) =
     build_userData b"
  unfolding validate_base_def validate_role_def build_userData_def ignored_selectors
  by (rule refl)+

text \<open>
  C10. A client cannot set permissions. The registration handler reads none of
  \<open>permissions\<close>, \<open>isActive\<close> and \<open>assignedStudents\<close> of the request: whatever they
  hold, response and store are the same. After every successful registration the new
  document has the role of the request, is active and has no assigned students. For an
  admin its \<open>adminLevel\<close> is the one the request names, or \<open>limited\<close> when it names
  none, and its permissions are the row of the fixed table for that level: all six for
  \<open>super\<close>, all but \<open>manageAdmins\<close> for \<open>department\<close>, \<open>manageCalendar\<close> and
  \<open>viewAnalytics\<close> alone for \<open>limited\<close>. For every other role all six are false,
  and so is every capability check.
\<close>

theorem permissions_not_client_set:
  "register c inp (b\<lparr>b_permissions := x, b_isActive := y, b_assignedStudents := z\<rparr>) db =
     register c inp b db \<and>
   (fst (fst (register c inp b db)) = 201 \<longrightarrow>
      (\<exists>u. snd (register c inp b db) = db @ [u] \<and> isActive u \<and> assignedStudents u = [] \<and>
         role u \<in> {''student'', ''proctor'', ''admin''} \<and> b_role b = JStr (role u) \<and>
         (role u = ''admin'' \<longrightarrow>
            (b_adminLevel b = JStr (adminLevel u) \<or>
             \<not> truthy (b_adminLevel b) \<and> adminLevel u = ''limited'') \<and>
            (adminLevel u = ''super'' \<and>
             permissions u =
               \<lparr>manageCalendar = True, manageUsers = True, viewAnalytics = True,
                manageProctors = True, manageAdmins = True, exportReports = True\<rparr> \<or>
             adminLevel u = ''department'' \<and>
             permissions u =
               \<lparr>manageCalendar = True, manageUsers = True, viewAnalytics = True,
                manageProctors = True, manageAdmins = False, exportReports = True\<rparr> \<or>
             adminLevel u = ''limited'' \<and>
             permissions u =
               \<lparr>manageCalendar = True, manageUsers = False, viewAnalytics = True,
                manageProctors = False, manageAdmins = False, exportReports = False\<rparr>)) \<and>
         (role u \<noteq> ''admin'' \<longrightarrow>
            permissions u =
              \<lparr>manageCalendar = False, manageUsers = False, viewAnalytics = False,
               manageProctors = False, manageAdmins = False, exportReports = False\<rparr> \<and>
            (\<forall>capability. \<not> hasPermission u capability))))"
proof -
  have ignore: "register c inp (b\<lparr>b_permissions := x, b_isActive := y, b_assignedStudents := z\<rparr>) db =
      register c inp b db"
    unfolding register_def register_at_def register_try_def ignored_fields ignored_selectors ..
  have stored: "\<exists>u. snd (register c inp b db) = db @ [u] \<and> isActive u \<and> assignedStudents u = [] \<and>
         role u \<in> {''student'', ''proctor'', ''admin''} \<and> b_role b = JStr (role u) \<and>
         (role u = ''admin'' \<longrightarrow>
            (b_adminLevel b = JStr (adminLevel u) \<or>
             \<not> truthy (b_adminLevel b) \<and> adminLevel u = ''limited'') \<and>
            (adminLevel u = ''super'' \<and>
             permissions u =
               \<lparr>manageCalendar = True, manageUsers = True, viewAnalytics = True,
                manageProctors = True, manageAdmins = True, exportReports = True\<rparr> \<or>
             adminLevel u = ''department'' \<and>
             permissions u =
               \<lparr>manageCalendar = True, manageUsers = True, viewAnalytics = True,
                manageProctors = True, manageAdmins = False, exportReports = True\<rparr> \<or>
             adminLevel u = ''limited'' \<and>
             permissions u =
               \<lparr>manageCalendar = True, manageUsers = False, viewAnalytics = True,
                manageProctors = False, manageAdmins = False, exportReports = False\<rparr>)) \<and>
         (role u \<noteq> ''admin'' \<longrightarrow>
            permissions u =
              \<lparr>manageCalendar = False, manageUsers = False, viewAnalytics = False,
               manageProctors = False, manageAdmins = False, exportReports = False\<rparr> \<and>
            (\<forall>capability. \<not> hasPermission u capability))"
    if "fst (fst (register c inp b db)) = 201"
  proof -
    from that obtain ud u0 m where ud: "build_userData b = Inr ud"
      and doc: "new_User (new_id inp) (clock inp) ud = (u0, m, [])"
      and valid: "validate u0 = []"
      and rl: "b_role b \<in> set [JStr ''student'', JStr ''proctor'', JStr ''admin'']"
      and res: "snd (register c inp b db) = db @ [fst (pre_save (bcrypt_lib c) (salt inp) m u0)]"
      by (rule register_ok) simp
    let ?u = "fst (pre_save (bcrypt_lib c) (salt inp) m u0)"
    note d = new_User_defaults [OF doc]
    have role0: "role u0 = or_empty (cast_string (b_role b))"
      using d(4) build_userData_role(1) [OF ud] by simp
    with rl have roles: "role u0 \<in> {''student'', ''proctor'', ''admin''}"
      and sent: "b_role b = JStr (role u0)"
      by (auto simp: or_empty_def)
    from valid have enum: "adminLevel u0 \<in> set [''super'', ''department'', ''limited'']"
      by (auto simp: validate_def split: if_splits)
    have admin: "(b_adminLevel b = JStr (adminLevel u0) \<or>
             \<not> truthy (b_adminLevel b) \<and> adminLevel u0 = ''limited'') \<and>
            (adminLevel u0 = ''super'' \<and>
             permissions ?u =
               \<lparr>manageCalendar = True, manageUsers = True, viewAnalytics = True,
                manageProctors = True, manageAdmins = True, exportReports = True\<rparr> \<or>
             adminLevel u0 = ''department'' \<and>
             permissions ?u =
               \<lparr>manageCalendar = True, manageUsers = True, viewAnalytics = True,
                manageProctors = True, manageAdmins = False, exportReports = True\<rparr> \<or>
             adminLevel u0 = ''limited'' \<and>
             permissions ?u =
               \<lparr>manageCalendar = True, manageUsers = False, viewAnalytics = True,
                manageProctors = False, manageAdmins = False, exportReports = False\<rparr>)"
      if a: "role u0 = ''admin''"
    proof -
      from a sent have ra: "b_role b = JStr ''admin''"
        by simp
      then have "''adminLevel'' \<in> set m"
        using build_userData_role(2) [OF ud] d(6) by simp
      with a have "permissions ?u = level_permissions (adminLevel u0)"
        by (simp add: pre_save_def)
      with enum have table: "adminLevel u0 = ''super'' \<and>
             permissions ?u =
               \<lparr>manageCalendar = True, manageUsers = True, viewAnalytics = True,
                manageProctors = True, manageAdmins = True, exportReports = True\<rparr> \<or>
             adminLevel u0 = ''department'' \<and>
             permissions ?u =
               \<lparr>manageCalendar = True, manageUsers = True, viewAnalytics = True,
                manageProctors = True, manageAdmins = False, exportReports = True\<rparr> \<or>
             adminLevel u0 = ''limited'' \<and>
             permissions ?u =
               \<lparr>manageCalendar = True, manageUsers = False, viewAnalytics = True,
                manageProctors = False, manageAdmins = False, exportReports = False\<rparr>"
        by (auto simp: level_permissions_def)
      note lv = new_User_adminLevel [OF doc build_userData_adminLevel [OF ud ra]]
      have named: "b_adminLevel b = JStr (adminLevel u0) \<or>
             \<not> truthy (b_adminLevel b) \<and> adminLevel u0 = ''limited''"
      proof (cases "truthy (b_adminLevel b)")
        case False
        with lv show ?thesis by simp
      next
        case True
        show ?thesis
        proof (cases "b_adminLevel b")
          case (JStr l)
          with True lv show ?thesis by simp
        next
          case (JNum n)
          with True lv have "adminLevel u0 = show_int (Rep_safe_int n)" by simp
          with enum show_int_no_level [of "Rep_safe_int n"] show ?thesis by simp
        next
          case (JBool v)
          with True lv have "adminLevel u0 = ''true''" by simp
          with enum show ?thesis by simp
        qed (use True in simp_all)
      qed
      from named table show ?thesis by blast
    qed
    have other: "permissions ?u =
          \<lparr>manageCalendar = False, manageUsers = False, viewAnalytics = False,
           manageProctors = False, manageAdmins = False, exportReports = False\<rparr> \<and>
        (\<forall>capability. \<not> hasPermission ?u capability)"
      if "role u0 \<noteq> ''admin''"
      using that d(3) by (simp add: pre_save_def hasPermission_def default_permissions_def)
    show ?thesis
      using res d(1,2) roles sent admin other
      by (intro exI [of _ ?u]) (simp add: pre_save_keeps)
  qed
  show ?thesis
    using ignore stored by blast
qed

theorem permissions_not_client_set_witness:
  "register demo_ctx demo_inputs demo_admin_body [] =
     register demo_ctx demo_inputs
       (demo_admin_body\<lparr>b_permissions := Prim JUndefined, b_isActive := Prim JUndefined,
          b_assignedStudents := Prim JUndefined\<rparr>) [] \<and>
   (\<exists>u. snd (register demo_ctx demo_inputs demo_admin_body []) = [] @ [u] \<and>
      isActive u \<and> assignedStudents u = [] \<and> role u = ''admin'' \<and>
      adminLevel u = ''limited'' \<and>
      permissions u =
        \<lparr>manageCalendar = True, manageUsers = False, viewAnalytics = True,
         manageProctors = False, manageAdmins = False, exportReports = False\<rparr>) \<and>
   (\<exists>u. snd (register demo_ctx demo_inputs
              (demo_admin_body\<lparr>b_adminLevel := JStr ''super''\<rparr>) []) = [] @ [u] \<and>
      isActive u \<and> assignedStudents u = [] \<and> role u = ''admin'' \<and>
      adminLevel u = ''super'' \<and>
      permissions u =
        \<lparr>manageCalendar = True, manageUsers = True, viewAnalytics = True,
         manageProctors = True, manageAdmins = True, exportReports = True\<rparr>) \<and>
   (\<exists>u. snd (register demo_ctx demo_inputs demo_body []) = [] @ [u] \<and>
      isActive u \<and> assignedStudents u = [] \<and> role u = ''student'' \<and>
      permissions u =
        \<lparr>manageCalendar = False, manageUsers = False, viewAnalytics = False,
         manageProctors = False, manageAdmins = False, exportReports = False\<rparr>)"
proof -
  let ?b0 = "demo_admin_body\<lparr>b_permissions := Prim JUndefined, b_isActive := Prim JUndefined,
      b_assignedStudents := Prim JUndefined\<rparr>"
  let ?bs = "demo_admin_body\<lparr>b_adminLevel := JStr ''super''\<rparr>"
  have sent: "?b0\<lparr>b_permissions := Obj [(''manageAdmins'', Prim (JBool True))],
      b_isActive := Prim (JBool False), b_assignedStudents := Arr [Prim (JStr ''u1'')]\<rparr> =
      demo_admin_body"
    by (simp add: demo_admin_body_def)
  have same: "register demo_ctx demo_inputs demo_admin_body [] =
      register demo_ctx demo_inputs ?b0 []"
    using permissions_not_client_set [where c = demo_ctx and inp = demo_inputs and b = ?b0
        and x = "Obj [(''manageAdmins'', Prim (JBool True))]" and y = "Prim (JBool False)"
        and z = "Arr [Prim (JStr ''u1'')]" and db = "[]"]
    unfolding sent by simp
  have limited: "demo_admin_body\<lparr>b_adminLevel := JStr ''limited''\<rparr> = demo_admin_body"
    by (simp add: demo_admin_body_def)
  have lim: "register demo_ctx demo_inputs demo_admin_body [] =
      ((201, TokenUser (generateToken demo_ctx 2000 ''u1'' ''admin'')
              (safeUser (demo_admin
                 \<lparr>user_id := ''u1'', password := ''$2a$10$secret2'', adminLevel := ''limited'',
                  permissions := level_permissions ''limited'', createdAt := 1000\<rparr>))),
      [demo_admin
         \<lparr>user_id := ''u1'', password := ''$2a$10$secret2'', adminLevel := ''limited'',
          permissions := level_permissions ''limited'', createdAt := 1000\<rparr>])"
    using demo_register_admin [of "''limited''"] unfolding limited by simp
  have sup: "register demo_ctx demo_inputs ?bs [] =
      ((201, TokenUser (generateToken demo_ctx 2000 ''u1'' ''admin'')
              (safeUser (demo_admin
                 \<lparr>user_id := ''u1'', password := ''$2a$10$secret2'', adminLevel := ''super'',
                  permissions := level_permissions ''super'', createdAt := 1000\<rparr>))),
      [demo_admin
         \<lparr>user_id := ''u1'', password := ''$2a$10$secret2'', adminLevel := ''super'',
          permissions := level_permissions ''super'', createdAt := 1000\<rparr>])"
    using demo_register_admin [of "''super''"] by simp
  have stu: "register demo_ctx demo_inputs demo_body [] =
      ((201, TokenUser (generateToken demo_ctx (token_clock demo_inputs) (new_id demo_inputs)
                ''student'')
              (safeUser (demo_student
                 \<lparr>user_id := new_id demo_inputs,
                  password := bcrypt_hash (bcrypt_lib demo_ctx) ''secret1'' (salt demo_inputs),
                  createdAt := clock demo_inputs\<rparr>))),
      [] @ [demo_student
              \<lparr>user_id := new_id demo_inputs,
               password := bcrypt_hash (bcrypt_lib demo_ctx) ''secret1'' (salt demo_inputs),
               createdAt := clock demo_inputs\<rparr>])"
    by (rule register_scenario) simp
  have w1: "\<exists>u. snd (register demo_ctx demo_inputs demo_admin_body []) = [] @ [u] \<and>
      isActive u \<and> assignedStudents u = [] \<and> role u = ''admin'' \<and>
      adminLevel u = ''limited'' \<and>
      permissions u =
        \<lparr>manageCalendar = True, manageUsers = False, viewAnalytics = True,
         manageProctors = False, manageAdmins = False, exportReports = False\<rparr>"
  proof -
    have "fst (fst (register demo_ctx demo_inputs demo_admin_body [])) = 201"
      by (simp add: lim)
    with permissions_not_client_set [where c = demo_ctx and inp = demo_inputs
        and b = demo_admin_body and x = "Prim JUndefined" and y = "Prim JUndefined"
        and z = "Prim JUndefined" and db = "[]"]
    obtain u where u: "snd (register demo_ctx demo_inputs demo_admin_body []) = [] @ [u]"
      "isActive u" "assignedStudents u = []"
      "role u = ''admin'' \<longrightarrow>
         (adminLevel u = ''super'' \<and>
          permissions u =
            \<lparr>manageCalendar = True, manageUsers = True, viewAnalytics = True,
             manageProctors = True, manageAdmins = True, exportReports = True\<rparr> \<or>
          adminLevel u = ''department'' \<and>
          permissions u =
            \<lparr>manageCalendar = True, manageUsers = True, viewAnalytics = True,
             manageProctors = True, manageAdmins = False, exportReports = True\<rparr> \<or>
          adminLevel u = ''limited'' \<and>
          permissions u =
            \<lparr>manageCalendar = True, manageUsers = False, viewAnalytics = True,
             manageProctors = False, manageAdmins = False, exportReports = False\<rparr>)"
      by blast
    from u(1) have "u = demo_admin
        \<lparr>user_id := ''u1'', password := ''$2a$10$secret2'', adminLevel := ''limited'',
         permissions := level_permissions ''limited'', createdAt := 1000\<rparr>"
      by (simp only: lim snd_conv append_Nil list.inject)
    then have "role u = ''admin''" "adminLevel u = ''limited''"
      by (simp_all add: demo_admin_def)
    with u show ?thesis by auto
  qed
  have w2: "\<exists>u. snd (register demo_ctx demo_inputs ?bs []) = [] @ [u] \<and>
      isActive u \<and> assignedStudents u = [] \<and> role u = ''admin'' \<and>
      adminLevel u = ''super'' \<and>
      permissions u =
        \<lparr>manageCalendar = True, manageUsers = True, viewAnalytics = True,
         manageProctors = True, manageAdmins = True, exportReports = True\<rparr>"
  proof -
    have "fst (fst (register demo_ctx demo_inputs ?bs [])) = 201"
      by (simp add: sup)
    with permissions_not_client_set [where c = demo_ctx and inp = demo_inputs
        and b = ?bs and x = "Prim JUndefined" and y = "Prim JUndefined"
        and z = "Prim JUndefined" and db = "[]"]
    obtain u where u: "snd (register demo_ctx demo_inputs ?bs []) = [] @ [u]"
      "isActive u" "assignedStudents u = []"
      "role u = ''admin'' \<longrightarrow>
         (adminLevel u = ''super'' \<and>
          permissions u =
            \<lparr>manageCalendar = True, manageUsers = True, viewAnalytics = True,
             manageProctors = True, manageAdmins = True, exportReports = True\<rparr> \<or>
          adminLevel u = ''department'' \<and>
          permissions u =
            \<lparr>manageCalendar = True, manageUsers = True, viewAnalytics = True,
             manageProctors = True, manageAdmins = False, exportReports = True\<rparr> \<or>
          adminLevel u = ''limited'' \<and>
          permissions u =
            \<lparr>manageCalendar = True, manageUsers = False, viewAnalytics = True,
             manageProctors = False, manageAdmins = False, exportReports = False\<rparr>)"
      by blast
    from u(1) have "u = demo_admin
        \<lparr>user_id := ''u1'', password := ''$2a$10$secret2'', adminLevel := ''super'',
         permissions := level_permissions ''super'', createdAt := 1000\<rparr>"
      by (simp only: sup snd_conv append_Nil list.inject)
    then have "role u = ''admin''" "adminLevel u = ''super''"
      by (simp_all add: demo_admin_def)
    with u show ?thesis by auto
  qed
  have w3: "\<exists>u. snd (register demo_ctx demo_inputs demo_body []) = [] @ [u] \<and>
      isActive u \<and> assignedStudents u = [] \<and> role u = ''student'' \<and>
      permissions u =
        \<lparr>manageCalendar = False, manageUsers = False, viewAnalytics = False,
         manageProctors = False, manageAdmins = False, exportReports = False\<rparr>"
  proof -
    have "fst (fst (register demo_ctx demo_inputs demo_body [])) = 201"
      by (simp add: stu)
    with permissions_not_client_set [where c = demo_ctx and inp = demo_inputs
        and b = demo_body and x = "Prim JUndefined" and y = "Prim JUndefined"
        and z = "Prim JUndefined" and db = "[]"]
    obtain u where u: "snd (register demo_ctx demo_inputs demo_body []) = [] @ [u]"
      "isActive u" "assignedStudents u = []"
      "role u \<noteq> ''admin'' \<longrightarrow>
         permissions u =
           \<lparr>manageCalendar = False, manageUsers = False, viewAnalytics = False,
            manageProctors = False, manageAdmins = False, exportReports = False\<rparr>"
      by blast
    from u(1) have "u = demo_student
        \<lparr>user_id := new_id demo_inputs,
         password := bcrypt_hash (bcrypt_lib demo_ctx) ''secret1'' (salt demo_inputs),
         createdAt := clock demo_inputs\<rparr>"
      by (simp only: stu snd_conv append_Nil list.inject)
    then have "role u = ''student''"
      by (simp add: demo_student_def)
    with u show ?thesis by auto
  qed
  show ?thesis
    using same w1 w2 w3 by blast
qed

section \<open>The public view\<close>

text \<open>
  C4. The object \<open>safeUser\<close> returns has the eleven keys of the public view, none of
  them \<open>password\<close>, and does not depend on the password field of the document at all.
  The user object of every registration and login response that carries a token is
  \<open>safeUser\<close> of a document, so it has exactly those keys.
\<close>

theorem public_view:
  "map fst (safeUser u) =
     [''id'', ''name'', ''email'', ''role'', ''rollNumber'', ''department'', ''semester'',
      ''batch'', ''proctorId'', ''adminLevel'', ''permissions''] \<and>
   ''password'' \<notin> set (map fst (safeUser u)) \<and>
   safeUser (u\<lparr>password := h\<rparr>) = safeUser u \<and>
   (fst (register c inp b db) = (st, TokenUser token pub) \<longrightarrow>
      (\<exists>u'. pub = safeUser u' \<and> ''password'' \<notin> set (map fst pub))) \<and>
   (fst (login c inp b db) = (st, TokenUser token pub) \<longrightarrow>
      (\<exists>u'. pub = safeUser u' \<and> ''password'' \<notin> set (map fst pub)))"
proof -
  have keys: "map fst (safeUser v) =
     [''id'', ''name'', ''email'', ''role'', ''rollNumber'', ''department'', ''semester'',
      ''batch'', ''proctorId'', ''adminLevel'', ''permissions'']" for v
    by (simp add: safeUser_def)
  have nokey: "''password'' \<notin> set (map fst (safeUser v))" for v
    unfolding keys by simp
  have indep: "safeUser (u\<lparr>password := h\<rparr>) = safeUser u"
    by (simp add: safeUser_def)
  have reg: "\<exists>u'. pub = safeUser u' \<and> ''password'' \<notin> set (map fst pub)"
    if r: "fst (register c inp b db) = (st, TokenUser token pub)"
  proof -
    have "st = 201"
      using r
      by (auto simp: register_def register_at_def register_try_def register_catch_def
          split: sum.splits option.splits exn.splits if_splits)
    with r have "fst (fst (register c inp b db)) = 201" by simp
    then obtain ud u0 m where "register c inp b db =
      ((201, TokenUser (generateToken c (token_clock inp) (user_id u0) (role u0))
               (safeUser (fst (pre_save (bcrypt_lib c) (salt inp) m u0)))),
       db @ [fst (pre_save (bcrypt_lib c) (salt inp) m u0)])"
      by (rule register_ok)
    with r have "pub = safeUser (fst (pre_save (bcrypt_lib c) (salt inp) m u0))" by simp
    with nokey show ?thesis by blast
  qed
  have log: "\<exists>u'. pub = safeUser u' \<and> ''password'' \<notin> set (map fst pub)"
    if r: "fst (login c inp b db) = (st, TokenUser token pub)"
  proof -
    from r have "\<exists>u'. pub = safeUser u'"
      by (auto simp: login_def login_try_def split: sum.splits option.splits if_splits)
    with nokey show ?thesis by blast
  qed
  show ?thesis
    using keys nokey indep reg log by blast
qed

theorem public_view_witness:
  "(\<exists>u'. safeUser demo_student = safeUser u' \<and>
      ''password'' \<notin> set (map fst (safeUser demo_student))) \<and>
   (\<exists>u'. safeUser (demo_student\<lparr>lastLogin := Some 5000\<rparr>) = safeUser u' \<and>
      ''password'' \<notin> set (map fst (safeUser (demo_student\<lparr>lastLogin := Some 5000\<rparr>)))) \<and>
   safeUser (demo_student\<lparr>password := ''secret1''\<rparr>) = safeUser demo_student"
proof -
  have reg: "fst (register demo_ctx demo_inputs demo_body []) =
      (201, TokenUser (generateToken demo_ctx 2000 ''u1'' ''student'') (safeUser demo_student))"
  proof -
    have "demo_student\<lparr>user_id := ''u1'', password := ''$2a$10$secret1'', createdAt := 1000\<rparr> =
        demo_student"
      by (simp add: demo_student_def)
    then show ?thesis
      using register_scenario [of "[]" demo_inputs demo_ctx]
      by (simp add: demo_inputs_def demo_ctx_def demo_bcrypt_def)
  qed
  have log: "fst (login demo_ctx (demo_inputs\<lparr>clock := 5000, token_clock := 6000\<rparr>)
      (empty_body\<lparr>b_email := JStr ''A@X.com'', b_password := JStr ''secret1''\<rparr>)
      [demo_student]) =
      (200, TokenUser (generateToken demo_ctx 6000 ''u1'' ''student'')
              (safeUser (demo_student\<lparr>lastLogin := Some 5000\<rparr>)))"
    by (simp add: demo_login)
  show ?thesis
    using public_view [where u = demo_student and h = "''secret1''" and c = demo_ctx
        and inp = demo_inputs and b = demo_body and db = "[]" and st = 201
        and token = "generateToken demo_ctx 2000 ''u1'' ''student''"
        and pub = "safeUser demo_student"]
      public_view [where u = demo_student and h = "''secret1''" and c = demo_ctx
        and inp = "demo_inputs\<lparr>clock := 5000, token_clock := 6000\<rparr>"
        and b = "empty_body\<lparr>b_email := JStr ''A@X.com'', b_password := JStr ''secret1''\<rparr>"
        and db = "[demo_student]" and st = 200
        and token = "generateToken demo_ctx 6000 ''u1'' ''student''"
        and pub = "safeUser (demo_student\<lparr>lastLogin := Some 5000\<rparr>)"]
      reg log
    by blast
qed

end
